theory Spec2Isabelle
  imports Complex_Main
begin

section \<open>Flow-field particle sketches (lesson 07 and the capstone, lesson 17)\<close>

text \<open>
  The two sketches \<^verbatim>\<open>lessons/07_flow_fields/flow_fields_py5.py\<close> and
  \<^verbatim>\<open>lessons/17_capstone/capstone_py5.py\<close> are embedded here. Python floats are
  idealised as real numbers (no rounding, no NaN, no infinities), Python integers are
  \<^typ>\<open>int\<close>, a Python exception is the left summand of a sum type, and the module-level
  globals of a sketch are the fields of a record that every function receives and returns.
  The calls into the py5 library (the canvas, drawing, colours, noise, random numbers) are
  taken to return; the exceptions of the model are those that the statements of the
  sketches themselves raise: a division by zero, a list subscript out of range, and the
  creation of the export directory.
\<close>

subsection \<open>Python and py5 primitives\<close>

datatype py_error = IndexError | ZeroDivisionError | OSError

text \<open>Python's \<^verbatim>\<open>int(r)\<close> on a float truncates towards zero.\<close>

definition py_int :: "real \<Rightarrow> int" where
  "py_int r = (if 0 \<le> r then \<lfloor>r\<rfloor> else \<lceil>r\<rceil>)"

text \<open>Python's true division \<^verbatim>\<open>a / b\<close> raises on a zero divisor.\<close>

definition py_truediv :: "real \<Rightarrow> real \<Rightarrow> py_error + real" where
  "py_truediv a b = (if b = 0 then Inl ZeroDivisionError else Inr (a / b))"

text \<open>
  Python's \<^verbatim>\<open>xs[i]\<close> on a list: an index from \<open>-len\<close> up to \<open>-1\<close> counts from the
  end, anything outside \<open>[-len, len)\<close> raises \<^verbatim>\<open>IndexError\<close>.
\<close>

definition py_getitem :: "'a list \<Rightarrow> int \<Rightarrow> py_error + 'a" where
  "py_getitem xs i =
     (if 0 \<le> i \<and> i < int (length xs) then Inr (xs ! nat i)
      else if i < 0 \<and> - int (length xs) \<le> i then Inr (xs ! nat (int (length xs) + i))
      else Inl IndexError)"

text \<open>
  \<^verbatim>\<open>py5.constrain(amt, low, high)\<close> belongs to the py5 library, not to this repository.
  It is taken as the library documents it (and as Processing implements it): a value
  below \<open>low\<close> becomes \<open>low\<close>, otherwise a value above \<open>high\<close> becomes \<open>high\<close>.
\<close>

definition constrain :: "int \<Rightarrow> int \<Rightarrow> int \<Rightarrow> int" where
  "constrain amt low high = (if amt < low then low else if amt > high then high else amt)"

text \<open>\<^verbatim>\<open>py5.TWO_PI\<close>.\<close>

definition TWO_PI :: real where
  "TWO_PI = 2 * pi"

text \<open>
  \<^verbatim>\<open>py5.random\<close> is library code as well. A call draws one number \<open>u\<close> from the unit
  interval \<open>[0, 1)\<close> and scales it: \<^verbatim>\<open>random(high)\<close> is \<open>u * high\<close> and
  \<^verbatim>\<open>random(low, high)\<close> is \<open>low + u * (high - low)\<close>. The generator is a stream of
  such draws together with the position of the next one.
\<close>

type_synonym rng = "nat \<Rightarrow> real"

definition unit_draws :: "rng \<Rightarrow> bool" where
  "unit_draws g = (\<forall>n. 0 \<le> g n \<and> g n < 1)"

definition random1 :: "real \<Rightarrow> real \<Rightarrow> real" where
  "random1 u high = u * high"

definition random2 :: "real \<Rightarrow> real \<Rightarrow> real \<Rightarrow> real" where
  "random2 u low high = low + u * (high - low)"

subsection \<open>Particles\<close>

text \<open>A colour made by \<^verbatim>\<open>py5.color(r, g, b)\<close>.\<close>

type_synonym color = "nat \<times> nat \<times> nat"

text \<open>
  The attributes of \<^verbatim>\<open>FlowParticle\<close>; \<^verbatim>\<open>ArtParticle\<close> has the same ones and
  three more. The positions \<^verbatim>\<open>self.x\<close>, \<^verbatim>\<open>self.y\<close> are \<open>self_x\<close>, \<open>self_y\<close>.
\<close>

record particle =
  self_x :: real
  self_y :: real
  prev_x :: real
  prev_y :: real
  vx :: real
  vy :: real
  max_speed :: real
  col :: color

record art_particle = particle +
  stroke_weight :: real
  lifespan :: real
  age :: int

text \<open>
  \<^verbatim>\<open>FlowParticle.follow(field)\<close>, reading the globals \<^verbatim>\<open>scale\<close>, \<^verbatim>\<open>cols\<close>,
  \<^verbatim>\<open>rows\<close>. \<^verbatim>\<open>ArtParticle.follow\<close> is the same text up to the names of its two
  local variables, so this one function, on any record that extends \<^typ>\<open>particle\<close>,
  stands for both.
\<close>

definition follow ::
  "real \<Rightarrow> int \<Rightarrow> int \<Rightarrow> real list list \<Rightarrow> 'a particle_scheme \<Rightarrow> py_error + 'a particle_scheme"
where
  "follow scale cols rows field p =
     (case py_truediv (self_x p) scale of Inl e \<Rightarrow> Inl e | Inr qx \<Rightarrow>
     (case py_truediv (self_y p) scale of Inl e \<Rightarrow> Inl e | Inr qy \<Rightarrow>
      (let c = constrain (py_int qx) 0 (cols - 1);
           r = constrain (py_int qy) 0 (rows - 1)
       in (case py_getitem field c of Inl e \<Rightarrow> Inl e | Inr column \<Rightarrow>
          (case py_getitem column r of Inl e \<Rightarrow> Inl e | Inr angle \<Rightarrow>
             Inr (p\<lparr>vx := cos angle * max_speed p, vy := sin angle * max_speed p\<rparr>))))))"

text \<open>\<^verbatim>\<open>FlowParticle.update()\<close>, reading \<^verbatim>\<open>py5.width\<close> and \<^verbatim>\<open>py5.height\<close>.\<close>

definition FlowParticle_update :: "int \<Rightarrow> int \<Rightarrow> 'a particle_scheme \<Rightarrow> 'a particle_scheme" where
  "FlowParticle_update width height p0 =
     (let p1 = p0\<lparr>prev_x := self_x p0, prev_y := self_y p0\<rparr>;
          p2 = p1\<lparr>self_x := self_x p1 + vx p1, self_y := self_y p1 + vy p1\<rparr>;
          p3 = (if self_x p2 < 0
                then p2\<lparr>self_x := real_of_int width, prev_x := real_of_int width\<rparr> else p2);
          p4 = (if self_x p3 > real_of_int width then p3\<lparr>self_x := 0, prev_x := 0\<rparr> else p3);
          p5 = (if self_y p4 < 0
                then p4\<lparr>self_y := real_of_int height, prev_y := real_of_int height\<rparr> else p4);
          p6 = (if self_y p5 > real_of_int height then p5\<lparr>self_y := 0, prev_y := 0\<rparr> else p5)
      in p6)"

text \<open>\<^verbatim>\<open>ArtParticle.update()\<close>: the same steps, with \<^verbatim>\<open>self.age += 1\<close> after the move.\<close>

definition ArtParticle_update :: "int \<Rightarrow> int \<Rightarrow> art_particle \<Rightarrow> art_particle" where
  "ArtParticle_update width height p0 =
     (let p1 = p0\<lparr>prev_x := self_x p0, prev_y := self_y p0\<rparr>;
          p2 = p1\<lparr>self_x := self_x p1 + vx p1, self_y := self_y p1 + vy p1\<rparr>;
          p2a = p2\<lparr>age := age p2 + 1\<rparr>;
          p3 = (if self_x p2a < 0
                then p2a\<lparr>self_x := real_of_int width, prev_x := real_of_int width\<rparr> else p2a);
          p4 = (if self_x p3 > real_of_int width then p3\<lparr>self_x := 0, prev_x := 0\<rparr> else p3);
          p5 = (if self_y p4 < 0
                then p4\<lparr>self_y := real_of_int height, prev_y := real_of_int height\<rparr> else p4);
          p6 = (if self_y p5 > real_of_int height then p5\<lparr>self_y := 0, prev_y := 0\<rparr> else p5)
      in p6)"

text \<open>\<^verbatim>\<open>ArtParticle.is_dead()\<close>.\<close>

definition is_dead :: "art_particle \<Rightarrow> bool" where
  "is_dead p = (real_of_int (age p) \<ge> lifespan p)"

subsection \<open>The flow grid\<close>

text \<open>
  The dimension computed in both \<^verbatim>\<open>setup()\<close> functions:
  \<^verbatim>\<open>int(py5.width / scale) + 1\<close>, and likewise for the height.
\<close>

definition grid_dim :: "int \<Rightarrow> real \<Rightarrow> py_error + int" where
  "grid_dim extent scale =
     (case py_truediv (real_of_int extent) scale of Inl e \<Rightarrow> Inl e | Inr q \<Rightarrow> Inr (py_int q + 1))"

text \<open>\<^verbatim>\<open>[[0 for _ in range(rows)] for _ in range(cols)]\<close>; a negative range is empty.\<close>

definition new_field :: "int \<Rightarrow> int \<Rightarrow> real list list" where
  "new_field cols rows = replicate (nat cols) (replicate (nat rows) 0)"

text \<open>
  The assignment \<^verbatim>\<open>field[i][j] = angle\<close>: both subscripts are checked by Python. The
  loops only produce indices from \<^verbatim>\<open>range\<close>, which are never negative.
\<close>

definition set_cell :: "real list list \<Rightarrow> nat \<Rightarrow> nat \<Rightarrow> real \<Rightarrow> py_error + real list list" where
  "set_cell f i j v =
     (if i < length f \<and> j < length (f ! i) then Inr (f[i := (f ! i)[j := v]])
      else Inl IndexError)"

text \<open>
  The loop nest shared by both \<^verbatim>\<open>update_field\<close> functions,
  \<^verbatim>\<open>for i in range(cols): for j in range(rows): field[i][j] = angle\<close>,
  with the angle expression of the sketch passed in as \<open>angle_of i j\<close>.
\<close>

fun fill_column :: "(nat \<Rightarrow> nat \<Rightarrow> real) \<Rightarrow> nat \<Rightarrow> nat list \<Rightarrow> real list list \<Rightarrow> py_error + real list list"
where
  "fill_column angle_of i [] f = Inr f"
| "fill_column angle_of i (j # js) f =
     (case set_cell f i j (angle_of i j) of
        Inl e \<Rightarrow> Inl e
      | Inr f' \<Rightarrow> fill_column angle_of i js f')"

fun fill_columns :: "(nat \<Rightarrow> nat \<Rightarrow> real) \<Rightarrow> nat list \<Rightarrow> nat list \<Rightarrow> real list list \<Rightarrow> py_error + real list list"
where
  "fill_columns angle_of [] js f = Inr f"
| "fill_columns angle_of (i # is) js f =
     (case fill_column angle_of i js f of
        Inl e \<Rightarrow> Inl e
      | Inr f' \<Rightarrow> fill_columns angle_of is js f')"

definition fill_field :: "(nat \<Rightarrow> nat \<Rightarrow> real) \<Rightarrow> int \<Rightarrow> int \<Rightarrow> real list list \<Rightarrow> py_error + real list list"
where
  "fill_field angle_of cols rows f = fill_columns angle_of [0..<nat cols] [0..<nat rows] f"

subsection \<open>The globals of a sketch\<close>

text \<open>
  \<^verbatim>\<open>py5.width\<close>, \<^verbatim>\<open>py5.height\<close> and the module-level variables that the functions
  below read or assign. \<open>draws\<close> is the number of random numbers drawn so far. The
  constants \<^verbatim>\<open>scale\<close>, \<^verbatim>\<open>num_particles\<close>, \<^verbatim>\<open>max_particles\<close> and the palette are
  arguments, as are the library's noise function and the stream of random draws.
  The capstone's counter \<^verbatim>\<open>t\<close> is written but never read and is left out, and so are
  the drawing calls, whose only computed argument is the alpha of \<open>ArtParticle_display\<close>,
  and the overlays \<^verbatim>\<open>draw_field\<close>, \<^verbatim>\<open>draw_ui\<close> and \<^verbatim>\<open>draw_info_panel\<close>, which read
  the cells that \<^verbatim>\<open>update_field\<close> has just written and assign nothing.
\<close>

record 'p sketch =
  width :: int
  height :: int
  cols :: int
  rows :: int
  field :: "real list list"
  particles :: "'p list"
  z_offset :: real
  draws :: nat

subsection \<open>Lesson 07\<close>

text \<open>\<^verbatim>\<open>FlowParticle()\<close>: \<^verbatim>\<open>reset()\<close>, then the colour.\<close>

definition FlowParticle_init :: "rng \<Rightarrow> nat \<Rightarrow> int \<Rightarrow> int \<Rightarrow> color list \<Rightarrow> py_error + (particle \<times> nat)"
where
  "FlowParticle_init g k w h palette =
     (let x0 = random1 (g k) (real_of_int w);
          y0 = random1 (g (k + 1)) (real_of_int h);
          speed = random2 (g (k + 2)) 2 4
      in case py_getitem palette (py_int (random1 (g (k + 3)) (real (length palette)))) of
           Inl e \<Rightarrow> Inl e
         | Inr c \<Rightarrow>
             Inr (\<lparr>self_x = x0, self_y = y0, prev_x = x0, prev_y = y0, vx = 0, vy = 0,
                   max_speed = speed, col = c\<rparr>, k + 4))"

text \<open>\<^verbatim>\<open>[FlowParticle() for _ in range(num_particles)]\<close>.\<close>

fun flow_particles :: "rng \<Rightarrow> int \<Rightarrow> int \<Rightarrow> color list \<Rightarrow> nat \<Rightarrow> nat \<Rightarrow> py_error + (particle list \<times> nat)"
where
  "flow_particles g w h palette 0 k = Inr ([], k)"
| "flow_particles g w h palette (Suc n) k =
     (case FlowParticle_init g k w h palette of
        Inl e \<Rightarrow> Inl e
      | Inr (p, k') \<Rightarrow>
          (case flow_particles g w h palette n k' of
             Inl e \<Rightarrow> Inl e
           | Inr (ps, k'') \<Rightarrow> Inr (p # ps, k'')))"

text \<open>
  \<^verbatim>\<open>setup()\<close> of lesson 07; \<open>w\<close> and \<open>h\<close> are the arguments of \<^verbatim>\<open>py5.size\<close>
  (800 and 600 in the sketch), which become \<^verbatim>\<open>py5.width\<close> and \<^verbatim>\<open>py5.height\<close>. What
  the library call \<^verbatim>\<open>py5.size\<close> does with a size that it does not accept is not part of
  the model: the definition is the code of the sketch after that call has returned. The
  calls \<^verbatim>\<open>py5.background\<close> and \<^verbatim>\<open>print\<close> are output only and are left out.
\<close>

definition flow_setup ::
  "rng \<Rightarrow> int \<Rightarrow> int \<Rightarrow> real \<Rightarrow> int \<Rightarrow> color list \<Rightarrow> py_error + particle sketch"
where
  "flow_setup g w h scale num_particles palette =
     (case grid_dim w scale of Inl e \<Rightarrow> Inl e | Inr c \<Rightarrow>
     (case grid_dim h scale of Inl e \<Rightarrow> Inl e | Inr r \<Rightarrow>
     (case flow_particles g w h palette (nat num_particles) 0 of Inl e \<Rightarrow> Inl e
      | Inr (ps, k) \<Rightarrow>
          Inr \<lparr>width = w, height = h, cols = c, rows = r, field = new_field c r,
               particles = ps, z_offset = 0, draws = k\<rparr>)))"

text \<open>\<^verbatim>\<open>update_field()\<close> of lesson 07, with its local \<^verbatim>\<open>noise_scale = 0.1\<close>.\<close>

definition flow_update_field ::
  "(real \<Rightarrow> real \<Rightarrow> real \<Rightarrow> real) \<Rightarrow> 'p sketch \<Rightarrow> py_error + 'p sketch"
where
  "flow_update_field noise st =
     (let noise_scale = 0.1 in
      case fill_field
             (\<lambda>i j. noise (real i * noise_scale) (real j * noise_scale) (z_offset st) * TWO_PI * 2)
             (cols st) (rows st) (field st) of
        Inl e \<Rightarrow> Inl e
      | Inr f \<Rightarrow> Inr (st\<lparr>field := f\<rparr>))"

text \<open>The loop \<^verbatim>\<open>for p in particles: p.follow(field); p.update(); p.display()\<close>.\<close>

fun flow_move_all :: "real \<Rightarrow> particle sketch \<Rightarrow> particle list \<Rightarrow> py_error + particle list" where
  "flow_move_all scale st [] = Inr []"
| "flow_move_all scale st (p # ps) =
     (case follow scale (cols st) (rows st) (field st) p of
        Inl e \<Rightarrow> Inl e
      | Inr p' \<Rightarrow>
          (case flow_move_all scale st ps of
             Inl e \<Rightarrow> Inl e
           | Inr ps' \<Rightarrow> Inr (FlowParticle_update (width st) (height st) p' # ps')))"

text \<open>\<^verbatim>\<open>draw()\<close> of lesson 07.\<close>

definition flow_draw ::
  "(real \<Rightarrow> real \<Rightarrow> real \<Rightarrow> real) \<Rightarrow> real \<Rightarrow> particle sketch \<Rightarrow> py_error + particle sketch"
where
  "flow_draw noise scale st =
     (case flow_update_field noise st of Inl e \<Rightarrow> Inl e | Inr st1 \<Rightarrow>
     (case flow_move_all scale st1 (particles st1) of Inl e \<Rightarrow> Inl e | Inr ps \<Rightarrow>
        Inr (st1\<lparr>particles := ps, z_offset := z_offset st1 + 0.003\<rparr>)))"

subsection \<open>The capstone\<close>

text \<open>
  An entry of the dictionary \<^verbatim>\<open>artists\<close>. The key \<^verbatim>\<open>"stroke_weight"\<close> is the field
  \<open>stroke_weight_range\<close> and \<^verbatim>\<open>"name"\<close> is \<open>artist_name\<close>. A record has every key:
  the type stands for the profiles that have all nine keys, as the four profiles of
  \<^verbatim>\<open>init_artists()\<close> do. A dictionary that lacks a key, for which a subscript of the
  source would raise \<^verbatim>\<open>KeyError\<close>, is not a value of this type, and nothing below is
  a statement about such a dictionary.
\<close>

record artist_profile =
  artist_name :: string
  movement :: string
  palette :: "color list"
  background :: color
  speed_range :: "real \<times> real"
  stroke_weight_range :: "real \<times> real"
  opacity :: real
  flow_scale :: real
  flow_multiplier :: real

definition monet :: artist_profile where
  "monet = \<lparr>artist_name = ''Claude Monet'', movement = ''Impressionism'',
     palette = [(142, 178, 197), (176, 166, 198), (168, 199, 168), (216, 191, 161), (112, 145, 128)],
     background = (210, 220, 230), speed_range = (1.5, 3), stroke_weight_range = (1, 3),
     opacity = 80, flow_scale = 0.003, flow_multiplier = 1\<rparr>"

definition vangogh :: artist_profile where
  "vangogh = \<lparr>artist_name = ''Vincent van Gogh'', movement = ''Post-Impressionism'',
     palette = [(25, 55, 95), (60, 90, 140), (230, 200, 80), (40, 70, 50), (180, 150, 100)],
     background = (25, 35, 55), speed_range = (2, 4), stroke_weight_range = (2, 5),
     opacity = 150, flow_scale = 0.005, flow_multiplier = 3\<rparr>"

definition seurat :: artist_profile where
  "seurat = \<lparr>artist_name = ''Georges Seurat'', movement = ''Neo-Impressionism'',
     palette = [(180, 200, 220), (140, 170, 120), (200, 180, 140), (220, 190, 170), (80, 100, 140)],
     background = (240, 235, 220), speed_range = (0.5, 1.5), stroke_weight_range = (2, 4),
     opacity = 200, flow_scale = 0.002, flow_multiplier = 1\<rparr>"

definition kandinsky :: artist_profile where
  "kandinsky = \<lparr>artist_name = ''Wassily Kandinsky'', movement = ''Abstract Expressionism'',
     palette = [(200, 50, 50), (50, 100, 180), (240, 200, 50), (30, 30, 30), (220, 220, 220)],
     background = (245, 240, 230), speed_range = (2, 5), stroke_weight_range = (1, 6),
     opacity = 180, flow_scale = 0.008, flow_multiplier = 2\<rparr>"

text \<open>\<^verbatim>\<open>ArtParticle(artist_profile)\<close>, that is \<^verbatim>\<open>reset(artist_profile)\<close> on a new object.\<close>

definition ArtParticle_init ::
  "rng \<Rightarrow> nat \<Rightarrow> int \<Rightarrow> int \<Rightarrow> artist_profile \<Rightarrow> py_error + (art_particle \<times> nat)"
where
  "ArtParticle_init g k w h artist =
     (let x0 = random1 (g k) (real_of_int w);
          y0 = random1 (g (k + 1)) (real_of_int h)
      in case py_getitem (palette artist)
                (py_int (random1 (g (k + 2)) (real (length (palette artist))))) of
           Inl e \<Rightarrow> Inl e
         | Inr c \<Rightarrow>
             Inr (\<lparr>self_x = x0, self_y = y0, prev_x = x0, prev_y = y0, vx = 0, vy = 0,
                   max_speed = random2 (g (k + 3)) (fst (speed_range artist)) (snd (speed_range artist)),
                   col = c,
                   stroke_weight = random2 (g (k + 4)) (fst (stroke_weight_range artist))
                                     (snd (stroke_weight_range artist)),
                   lifespan = random2 (g (k + 5)) 100 300,
                   age = 0\<rparr>, k + 6))"

text \<open>\<^verbatim>\<open>[ArtParticle(artist) for _ in range(max_particles)]\<close>.\<close>

fun art_particles :: "rng \<Rightarrow> int \<Rightarrow> int \<Rightarrow> artist_profile \<Rightarrow> nat \<Rightarrow> nat \<Rightarrow> py_error + (art_particle list \<times> nat)"
where
  "art_particles g w h artist 0 k = Inr ([], k)"
| "art_particles g w h artist (Suc n) k =
     (case ArtParticle_init g k w h artist of
        Inl e \<Rightarrow> Inl e
      | Inr (p, k') \<Rightarrow>
          (case art_particles g w h artist n k' of
             Inl e \<Rightarrow> Inl e
           | Inr (ps, k'') \<Rightarrow> Inr (p # ps, k'')))"

text \<open>
  \<^verbatim>\<open>setup()\<close> of the capstone from \<^verbatim>\<open>py5.size\<close> to the creation of the particles,
  that is the state that it builds; \<open>w\<close> and \<open>h\<close> are the arguments of \<^verbatim>\<open>py5.size\<close>
  (1200 and 800 in the sketch) and \<open>artist\<close> is \<^verbatim>\<open>artists[current_artist]\<close>, the entry
  that \<^verbatim>\<open>init_artists()\<close> has just stored. The statement that follows in the source,
  \<^verbatim>\<open>Path("export").mkdir(exist_ok=True)\<close>, is added by \<open>capstone_setup_export\<close> below;
  the calls of \<^verbatim>\<open>print\<close> after it are output only and are left out.
\<close>

definition capstone_setup ::
  "rng \<Rightarrow> int \<Rightarrow> int \<Rightarrow> real \<Rightarrow> int \<Rightarrow> artist_profile \<Rightarrow> py_error + art_particle sketch"
where
  "capstone_setup g w h scale max_particles artist =
     (case grid_dim w scale of Inl e \<Rightarrow> Inl e | Inr c \<Rightarrow>
     (case grid_dim h scale of Inl e \<Rightarrow> Inl e | Inr r \<Rightarrow>
     (case art_particles g w h artist (nat max_particles) 0 of Inl e \<Rightarrow> Inl e
      | Inr (ps, k) \<Rightarrow>
          Inr \<lparr>width = w, height = h, cols = c, rows = r, field = new_field c r,
               particles = ps, z_offset = 0, draws = k\<rparr>)))"


text \<open>\<^verbatim>\<open>update_field(artist)\<close> of the capstone.\<close>

definition capstone_update_field ::
  "(real \<Rightarrow> real \<Rightarrow> real \<Rightarrow> real) \<Rightarrow> artist_profile \<Rightarrow> 'p sketch \<Rightarrow> py_error + 'p sketch"
where
  "capstone_update_field noise artist st =
     (let fs = flow_scale artist; multiplier = flow_multiplier artist in
      case fill_field
             (\<lambda>i j. noise (real i * fs * 10) (real j * fs * 10) (z_offset st) * TWO_PI * multiplier)
             (cols st) (rows st) (field st) of
        Inl e \<Rightarrow> Inl e
      | Inr f \<Rightarrow> Inr (st\<lparr>field := f\<rparr>))"

text \<open>
  \<^verbatim>\<open>ArtParticle.display(artist_profile)\<close>: the value is the alpha that it passes to
  \<^verbatim>\<open>py5.stroke\<close> or \<^verbatim>\<open>py5.fill\<close>.
\<close>

definition ArtParticle_display :: "artist_profile \<Rightarrow> art_particle \<Rightarrow> py_error + real" where
  "ArtParticle_display artist p =
     (case py_truediv (real_of_int (age p)) (lifespan p) of
        Inl e \<Rightarrow> Inl e
      | Inr q \<Rightarrow> (let life_ratio = 1 - q in Inr (life_ratio * opacity artist)))"

text \<open>
  The body of the loop of \<^verbatim>\<open>draw()\<close> for one index \<open>i\<close>: follow, update, display,
  and the replacement \<^verbatim>\<open>particles[i] = ArtParticle(artist)\<close> of a dead particle.
\<close>

definition capstone_step ::
  "rng \<Rightarrow> real \<Rightarrow> artist_profile \<Rightarrow> nat \<Rightarrow> art_particle sketch \<Rightarrow> py_error + art_particle sketch"
where
  "capstone_step g scale artist i st =
     (case py_getitem (particles st) (int i) of Inl e \<Rightarrow> Inl e | Inr p \<Rightarrow>
     (case follow scale (cols st) (rows st) (field st) p of Inl e \<Rightarrow> Inl e | Inr p1 \<Rightarrow>
      (let p2 = ArtParticle_update (width st) (height st) p1;
           st1 = st\<lparr>particles := (particles st)[i := p2]\<rparr>
       in (case ArtParticle_display artist p2 of Inl e \<Rightarrow> Inl e | Inr alpha \<Rightarrow>
            (if is_dead p2 then
               (case ArtParticle_init g (draws st1) (width st1) (height st1) artist of
                  Inl e \<Rightarrow> Inl e
                | Inr (q, k) \<Rightarrow> Inr (st1\<lparr>particles := (particles st1)[i := q], draws := k\<rparr>))
             else Inr st1)))))"

text \<open>\<^verbatim>\<open>for i in range(len(particles) - 1, -1, -1)\<close>: \<open>n\<close> indices are still to do.\<close>

fun capstone_loop ::
  "rng \<Rightarrow> real \<Rightarrow> artist_profile \<Rightarrow> nat \<Rightarrow> art_particle sketch \<Rightarrow> py_error + art_particle sketch"
where
  "capstone_loop g scale artist 0 st = Inr st"
| "capstone_loop g scale artist (Suc i) st =
     (case capstone_step g scale artist i st of
        Inl e \<Rightarrow> Inl e
      | Inr st' \<Rightarrow> capstone_loop g scale artist i st')"

text \<open>\<^verbatim>\<open>draw()\<close> of the capstone.\<close>

definition capstone_draw ::
  "(real \<Rightarrow> real \<Rightarrow> real \<Rightarrow> real) \<Rightarrow> rng \<Rightarrow> real \<Rightarrow> artist_profile \<Rightarrow> art_particle sketch
     \<Rightarrow> py_error + art_particle sketch"
where
  "capstone_draw noise g scale artist st =
     (case capstone_update_field noise artist st of Inl e \<Rightarrow> Inl e | Inr st1 \<Rightarrow>
     (case capstone_loop g scale artist (length (particles st1)) st1 of Inl e \<Rightarrow> Inl e
      | Inr st2 \<Rightarrow> Inr (st2\<lparr>z_offset := z_offset st2 + 0.002\<rparr>)))"

text \<open>Running \<^verbatim>\<open>draw()\<close> for \<open>n\<close> frames; the first failure ends the run.\<close>

fun flow_run ::
  "(real \<Rightarrow> real \<Rightarrow> real \<Rightarrow> real) \<Rightarrow> real \<Rightarrow> nat \<Rightarrow> particle sketch \<Rightarrow> py_error + particle sketch"
where
  "flow_run noise scale 0 st = Inr st"
| "flow_run noise scale (Suc n) st =
     (case flow_draw noise scale st of
        Inl e \<Rightarrow> Inl e
      | Inr st' \<Rightarrow> flow_run noise scale n st')"

fun capstone_run ::
  "(real \<Rightarrow> real \<Rightarrow> real \<Rightarrow> real) \<Rightarrow> rng \<Rightarrow> real \<Rightarrow> artist_profile \<Rightarrow> nat \<Rightarrow> art_particle sketch
     \<Rightarrow> py_error + art_particle sketch"
where
  "capstone_run noise g scale artist 0 st = Inr st"
| "capstone_run noise g scale artist (Suc n) st =
     (case capstone_draw noise g scale artist st of
        Inl e \<Rightarrow> Inl e
      | Inr st' \<Rightarrow> capstone_run noise g scale artist n st')"

subsection \<open>Predicates on the state\<close>

text \<open>The field is a list of \<open>c\<close> columns with \<open>r\<close> angles each.\<close>

definition field_shape :: "int \<Rightarrow> int \<Rightarrow> real list list \<Rightarrow> bool" where
  "field_shape c r f = (length f = nat c \<and> list_all (\<lambda>column. length column = nat r) f)"

text \<open>The grid of a sketch has at least one cell and the field has the grid's shape.\<close>

definition grid_ok :: "'p sketch \<Rightarrow> bool" where
  "grid_ok st = (1 \<le> cols st \<and> 1 \<le> rows st \<and> field_shape (cols st) (rows st) (field st))"

text \<open>The closed box \<open>[0, w] \<times> [0, h]\<close>, and the half-open box \<open>[0, w) \<times> [0, h)\<close>.\<close>

definition in_canvas :: "int \<Rightarrow> int \<Rightarrow> 'a particle_scheme \<Rightarrow> bool" where
  "in_canvas w h p =
     (0 \<le> self_x p \<and> self_x p \<le> real_of_int w \<and> 0 \<le> self_y p \<and> self_y p \<le> real_of_int h)"

definition in_half_open_canvas :: "int \<Rightarrow> int \<Rightarrow> 'a particle_scheme \<Rightarrow> bool" where
  "in_half_open_canvas w h p =
     (0 \<le> self_x p \<and> self_x p < real_of_int w \<and> 0 \<le> self_y p \<and> self_y p < real_of_int h)"

text \<open>A particle of the pool between two frames: its age has not reached its lifespan.\<close>

definition alive :: "art_particle \<Rightarrow> bool" where
  "alive p = (0 \<le> age p \<and> real_of_int (age p) < lifespan p)"

text \<open>The squared length of the trail segment from the previous to the current position.\<close>

definition trail_sq :: "'a particle_scheme \<Rightarrow> real" where
  "trail_sq p = (self_x p - prev_x p)\<^sup>2 + (self_y p - prev_y p)\<^sup>2"

text \<open>
  Whether \<^verbatim>\<open>update()\<close> wraps the horizontal (vertical) coordinate of \<open>p\<close>: the moved
  coordinate is left of zero or right of the width (above zero or below the height).
\<close>

definition wraps_x :: "int \<Rightarrow> 'a particle_scheme \<Rightarrow> bool" where
  "wraps_x w p = (self_x p + vx p < 0 \<or> self_x p + vx p > real_of_int w)"

definition wraps_y :: "int \<Rightarrow> 'a particle_scheme \<Rightarrow> bool" where
  "wraps_y h p = (self_y p + vy p < 0 \<or> self_y p + vy p > real_of_int h)"

text \<open>Fixed inputs for concrete runs: a generator and a noise function that are constant.\<close>

definition constant_draws :: "real \<Rightarrow> rng" where
  "constant_draws u n = u"

definition flat_noise :: "real \<Rightarrow> real \<Rightarrow> real \<Rightarrow> real \<Rightarrow> real" where
  "flat_noise v a b c = v"

text \<open>
  What holds of a sketch between two frames once \<^verbatim>\<open>setup()\<close> has run on a canvas of
  non-negative size: the grid is well formed and every particle is inside the canvas
  (and, in the capstone, has not reached its lifespan).
\<close>

definition flow_inv :: "particle sketch \<Rightarrow> bool" where
  "flow_inv st = (grid_ok st \<and> 0 \<le> width st \<and> 0 \<le> height st \<and>
     list_all (in_canvas (width st) (height st)) (particles st))"

definition capstone_inv :: "art_particle sketch \<Rightarrow> bool" where
  "capstone_inv st = (grid_ok st \<and> 0 \<le> width st \<and> 0 \<le> height st \<and>
     list_all (\<lambda>p. alive p \<and> in_canvas (width st) (height st) p) (particles st))"

text \<open>
  The angle that the specification gives to cell \<open>(i, j)\<close>:
  \<^verbatim>\<open>sample(i * noise_scale, j * noise_scale, time_offset) * 2\<pi> * angle_multiplier\<close>.
\<close>

definition spec_cell_angle ::
  "(real \<Rightarrow> real \<Rightarrow> real \<Rightarrow> real) \<Rightarrow> real \<Rightarrow> real \<Rightarrow> real \<Rightarrow> nat \<Rightarrow> nat \<Rightarrow> real"
where
  "spec_cell_angle sample noise_scale angle_multiplier time_offset i j =
     sample (real i * noise_scale) (real j * noise_scale) time_offset * (2 * pi) * angle_multiplier"

section \<open>Auxiliary facts\<close>

subsection \<open>Filling the field\<close>

lemma fill_column_append:
  "fill_column a i (xs @ ys) f =
     (case fill_column a i xs f of Inl e \<Rightarrow> Inl e | Inr f' \<Rightarrow> fill_column a i ys f')"
  by (induction xs arbitrary: f) (auto split: sum.splits)

lemma fill_columns_append:
  "fill_columns a (xs @ ys) js f =
     (case fill_columns a xs js f of Inl e \<Rightarrow> Inl e | Inr f' \<Rightarrow> fill_columns a ys js f')"
  by (induction xs arbitrary: f) (auto split: sum.splits)

lemma fill_column_upt:
  "i < length f \<Longrightarrow> m \<le> length (f ! i) \<Longrightarrow>
   fill_column a i [0..<m] f = Inr (f[i := map (a i) [0..<m] @ drop m (f ! i)])"
proof (induction m)
  case 0
  then show ?case by simp
next
  case (Suc m)
  then show ?case
    apply (simp add: fill_column_append set_cell_def)
    by (metis Cons_nth_drop_Suc diff_zero length_map length_upt less_eq_Suc_le
    list_update_length)
qed

lemma fill_column_full:
  "i < length f \<Longrightarrow> length (f ! i) = n \<Longrightarrow>
   fill_column a i [0..<n] f = Inr (f[i := map (a i) [0..<n]])"
  using fill_column_upt [of i f n a] by simp

lemma fill_columns_upt:
  "m \<le> length f \<Longrightarrow> \<forall>row \<in> set f. length row = n \<Longrightarrow>
   fill_columns a [0..<m] [0..<n] f =
     Inr (map (\<lambda>i. map (a i) [0..<n]) [0..<m] @ drop m f)"
proof (induction m)
  case 0
  then show ?case by simp
next
  case (Suc m)
  define F where "F = map (\<lambda>i. map (a i) [0..<n]) [0..<m] @ drop m f"
  from Suc have m: "m < length f" by simp
  with Suc have IH: "fill_columns a [0..<m] [0..<n] f = Inr F"
    by (simp add: F_def)
  have len: "m < length F" using m by (simp add: F_def)
  have "F ! m = f ! m" using m by (simp add: F_def nth_append)
  moreover have "length (f ! m) = n" using m Suc.prems(2) by simp
  ultimately have col: "fill_column a m [0..<n] F = Inr (F[m := map (a m) [0..<n]])"
    using fill_column_full [OF len] by simp
  have "F[m := map (a m) [0..<n]]
          = map (\<lambda>i. map (a i) [0..<n]) [0..<Suc m] @ drop (Suc m) f"
    using m by (simp add: F_def list_update_append Cons_nth_drop_Suc [symmetric])
  with IH col show ?case
    by (simp add: fill_columns_append)
qed

lemma fill_field_table:
  "field_shape c r f \<Longrightarrow>
   fill_field a c r f = Inr (map (\<lambda>i. map (a i) [0..<nat r]) [0..<nat c])"
  using fill_columns_upt [of "nat c" f "nat r" a]
  by (simp add: fill_field_def field_shape_def list_all_iff)

lemma field_shape_table: "field_shape c r (map (\<lambda>i. map (a i) [0..<nat r]) [0..<nat c])"
  by (auto simp: field_shape_def list_all_iff)

lemma field_shape_new: "field_shape c r (new_field c r)"
  by (auto simp: field_shape_def new_field_def list_all_iff)

subsection \<open>Following the field and moving\<close>

lemma constrain_bounds: "low \<le> high \<Longrightarrow> low \<le> constrain a low high \<and> constrain a low high \<le> high"
  by (simp add: constrain_def)

lemma py_getitem_nth: "0 \<le> i \<Longrightarrow> i < int (length xs) \<Longrightarrow> py_getitem xs i = Inr (xs ! nat i)"
  by (simp add: py_getitem_def)

lemma follow_grid:
  assumes "field_shape c r f" "1 \<le> c" "1 \<le> r" "scale \<noteq> 0"
  shows "follow scale c r f p =
     Inr (p\<lparr>vx := cos (f ! nat (constrain (py_int (self_x p / scale)) 0 (c - 1))
                       ! nat (constrain (py_int (self_y p / scale)) 0 (r - 1))) * max_speed p,
            vy := sin (f ! nat (constrain (py_int (self_x p / scale)) 0 (c - 1))
                       ! nat (constrain (py_int (self_y p / scale)) 0 (r - 1))) * max_speed p\<rparr>)"
proof -
  let ?ci = "constrain (py_int (self_x p / scale)) 0 (c - 1)"
  let ?ri = "constrain (py_int (self_y p / scale)) 0 (r - 1)"
  have ci: "0 \<le> ?ci" "?ci < int (length f)"
    using assms constrain_bounds [of 0 "c - 1" "py_int (self_x p / scale)"]
    by (auto simp: field_shape_def)
  then have "f ! nat ?ci \<in> set f" by simp
  then have ri: "0 \<le> ?ri" "?ri < int (length (f ! nat ?ci))"
    using assms constrain_bounds [of 0 "r - 1" "py_int (self_y p / scale)"]
    by (auto simp: field_shape_def list_all_iff)
  show ?thesis
    using assms(4) py_getitem_nth [OF ci] py_getitem_nth [OF ri]
    by (simp add: follow_def py_truediv_def Let_def)
qed

lemma follow_result:
  "follow scale c r f p = Inr p' \<Longrightarrow>
   \<exists>angle. p' = p\<lparr>vx := cos angle * max_speed p, vy := sin angle * max_speed p\<rparr>"
  by (auto simp: follow_def Let_def split: sum.splits)

lemma ArtParticle_update_eq:
  "ArtParticle_update w h p = FlowParticle_update w h (p\<lparr>age := age p + 1\<rparr>)"
  by (simp add: ArtParticle_update_def FlowParticle_update_def Let_def)

lemma update_in_canvas:
  "0 \<le> w \<Longrightarrow> 0 \<le> h \<Longrightarrow> in_canvas w h (FlowParticle_update w h p)"
  by (simp add: in_canvas_def FlowParticle_update_def Let_def)

lemma update_wrap_x:
  "wraps_x w p \<Longrightarrow> prev_x (FlowParticle_update w h p) = self_x (FlowParticle_update w h p)"
  by (auto simp: wraps_x_def FlowParticle_update_def Let_def)

lemma update_wrap_y:
  "wraps_y h p \<Longrightarrow> prev_y (FlowParticle_update w h p) = self_y (FlowParticle_update w h p)"
  by (auto simp: wraps_y_def FlowParticle_update_def Let_def)

lemma update_trail:
  "trail_sq (FlowParticle_update w h p) \<le> (vx p)\<^sup>2 + (vy p)\<^sup>2"
  by (auto simp: trail_sq_def FlowParticle_update_def Let_def)

subsection \<open>Construction\<close>

lemma grid_dim_value:
  "0 < scale \<Longrightarrow> 0 \<le> w \<Longrightarrow> grid_dim w scale = Inr (\<lfloor>real_of_int w / scale\<rfloor> + 1)"
  by (simp add: grid_dim_def py_truediv_def py_int_def)


lemma palette_index:
  assumes "0 \<le> u" "u < 1" "pal \<noteq> []"
  shows "py_getitem pal (py_int (random1 u (real (length pal)))) = Inr (pal ! nat \<lfloor>u * real (length pal)\<rfloor>)"
proof -
  have pos: "0 < real (length pal)" using assms(3) by simp
  have "u * real (length pal) < real (length pal)"
    using assms(2) pos by simp
  then have "\<lfloor>u * real (length pal)\<rfloor> < int (length pal)"
    by (simp add: floor_less_iff)
  moreover have "0 \<le> u * real (length pal)" using assms(1) by simp
  ultimately show ?thesis
    by (simp add: py_getitem_def random1_def py_int_def)
qed

lemma random1_range: "0 \<le> u \<Longrightarrow> u < 1 \<Longrightarrow> 0 \<le> w \<Longrightarrow> 0 \<le> random1 u (real_of_int w) \<and> random1 u (real_of_int w) \<le> real_of_int w"
  by (simp add: random1_def mult_left_le_one_le)

lemma FlowParticle_init_ok:
  assumes "unit_draws g" "pal \<noteq> []" "0 \<le> w" "0 \<le> h"
  shows "\<exists>p. FlowParticle_init g k w h pal = Inr (p, k + 4) \<and> in_canvas w h p"
  using assms palette_index [of "g (k + 3)" pal]
    random1_range [of "g k" w] random1_range [of "g (k + 1)" h]
  by (simp add: FlowParticle_init_def unit_draws_def Let_def in_canvas_def)

lemma flow_particles_ok:
  assumes "unit_draws g" "pal \<noteq> []" "0 \<le> w" "0 \<le> h"
  shows "\<exists>ps k'. flow_particles g w h pal n k = Inr (ps, k') \<and> length ps = n \<and>
           list_all (in_canvas w h) ps"
proof (induction n arbitrary: k)
  case 0
  show ?case by simp
next
  case (Suc n)
  obtain p where p: "FlowParticle_init g k w h pal = Inr (p, k + 4)" "in_canvas w h p"
    using FlowParticle_init_ok [OF assms] by blast
  obtain ps k' where "flow_particles g w h pal n (k + 4) = Inr (ps, k')" "length ps = n"
      "list_all (in_canvas w h) ps"
    using Suc.IH by blast
  with p show ?case by simp
qed

lemma flow_particles_length:
  "flow_particles g w h pal n k = Inr (ps, k') \<Longrightarrow> length ps = n"
  by (induction n arbitrary: k ps) (auto split: sum.splits prod.splits)

lemma ArtParticle_init_ok:
  assumes "unit_draws g" "palette a \<noteq> []" "0 \<le> w" "0 \<le> h"
  shows "\<exists>p. ArtParticle_init g k w h a = Inr (p, k + 6) \<and> in_canvas w h p \<and> alive p"
proof -
  have u: "0 \<le> g n \<and> g n < 1" for n
    using assms(1) by (simp add: unit_draws_def)
  have "0 \<le> g (k + 5) * 200" using u [of "k + 5"] by simp
  then have "(0::real) < 100 + g (k + 5) * 200" by linarith
  then show ?thesis
    using assms(2-4) u palette_index [of "g (k + 2)" "palette a"]
      random1_range [of "g k" w] random1_range [of "g (k + 1)" h]
    by (simp add: ArtParticle_init_def Let_def in_canvas_def alive_def random2_def)
qed

lemma art_particles_ok:
  assumes "unit_draws g" "palette a \<noteq> []" "0 \<le> w" "0 \<le> h"
  shows "\<exists>ps k'. art_particles g w h a n k = Inr (ps, k') \<and> length ps = n \<and>
           list_all (\<lambda>p. alive p \<and> in_canvas w h p) ps"
proof (induction n arbitrary: k)
  case 0
  show ?case by simp
next
  case (Suc n)
  obtain p where p: "ArtParticle_init g k w h a = Inr (p, k + 6)" "in_canvas w h p" "alive p"
    using ArtParticle_init_ok [OF assms] by blast
  obtain ps k' where "art_particles g w h a n (k + 6) = Inr (ps, k')" "length ps = n"
      "list_all (\<lambda>p. alive p \<and> in_canvas w h p) ps"
    using Suc.IH by blast
  with p show ?case by simp
qed

lemma art_particles_length:
  "art_particles g w h a n k = Inr (ps, k') \<Longrightarrow> length ps = n"
  by (induction n arbitrary: k ps) (auto split: sum.splits prod.splits)

lemma flow_setup_fields:
  assumes "flow_setup g w h scale n pal = Inr st"
  shows "width st = w \<and> height st = h \<and> grid_dim w scale = Inr (cols st) \<and>
         grid_dim h scale = Inr (rows st) \<and> field st = new_field (cols st) (rows st) \<and>
         length (particles st) = nat n"
  using assms
  by (auto simp: flow_setup_def split: sum.splits prod.splits dest: flow_particles_length)

lemma capstone_setup_fields:
  assumes "capstone_setup g w h scale n a = Inr st"
  shows "width st = w \<and> height st = h \<and> grid_dim w scale = Inr (cols st) \<and>
         grid_dim h scale = Inr (rows st) \<and> field st = new_field (cols st) (rows st) \<and>
         length (particles st) = nat n"
  using assms
  by (auto simp: capstone_setup_def split: sum.splits prod.splits dest: art_particles_length)

lemma flow_setup_ok:
  assumes "unit_draws g" "pal \<noteq> []" "0 \<le> w" "0 \<le> h" "0 < scale"
  shows "\<exists>st. flow_setup g w h scale n pal = Inr st \<and> flow_inv st"
proof -
  obtain ps k' where "flow_particles g w h pal (nat n) 0 = Inr (ps, k')"
      "list_all (in_canvas w h) ps"
    using flow_particles_ok [OF assms(1-4)] by blast
  then show ?thesis
    using assms(3-5)
    by (simp add: flow_setup_def grid_dim_value flow_inv_def grid_ok_def field_shape_new)
qed

lemma capstone_setup_ok:
  assumes "unit_draws g" "palette a \<noteq> []" "0 \<le> w" "0 \<le> h" "0 < scale"
  shows "\<exists>st. capstone_setup g w h scale n a = Inr st \<and> capstone_inv st"
proof -
  obtain ps k' where "art_particles g w h a (nat n) 0 = Inr (ps, k')"
      "list_all (\<lambda>p. alive p \<and> in_canvas w h p) ps"
    using art_particles_ok [OF assms(1-4)] by blast
  then show ?thesis
    using assms(3-5)
    by (simp add: capstone_setup_def grid_dim_value capstone_inv_def grid_ok_def field_shape_new)
qed

subsection \<open>One frame and many frames\<close>

lemma flow_update_field_ok:
  assumes "field_shape (cols st) (rows st) (field st)"
  shows "flow_update_field noise st =
     Inr (st\<lparr>field := map (\<lambda>i. map (\<lambda>j. noise (real i * 0.1) (real j * 0.1) (z_offset st) * TWO_PI * 2)
                                 [0..<nat (rows st)]) [0..<nat (cols st)]\<rparr>)"
  using fill_field_table [OF assms]
  by (simp add: flow_update_field_def Let_def)

lemma capstone_update_field_ok:
  assumes "field_shape (cols st) (rows st) (field st)"
  shows "capstone_update_field noise a st =
     Inr (st\<lparr>field := map (\<lambda>i. map (\<lambda>j. noise (real i * flow_scale a * 10) (real j * flow_scale a * 10)
                                            (z_offset st) * TWO_PI * flow_multiplier a)
                                 [0..<nat (rows st)]) [0..<nat (cols st)]\<rparr>)"
  using fill_field_table [OF assms]
  by (simp add: capstone_update_field_def Let_def)

lemma flow_move_all_ok:
  assumes "grid_ok st" "scale \<noteq> 0" "0 \<le> width st" "0 \<le> height st"
  shows "\<exists>ps'. flow_move_all scale st ps = Inr ps' \<and> length ps' = length ps \<and>
           list_all (in_canvas (width st) (height st)) ps'"
proof (induction ps)
  case Nil
  show ?case by simp
next
  case (Cons p ps)
  obtain p' where "follow scale (cols st) (rows st) (field st) p = Inr p'"
    using assms(1,2) follow_grid [of "cols st" "rows st" "field st" scale p]
    by (auto simp: grid_ok_def)
  moreover obtain ps' where "flow_move_all scale st ps = Inr ps'" "length ps' = length ps"
      "list_all (in_canvas (width st) (height st)) ps'"
    using Cons.IH by blast
  ultimately show ?case
    using assms(3,4) by (simp add: update_in_canvas)
qed

lemma flow_move_all_length:
  "flow_move_all scale st ps = Inr ps' \<Longrightarrow> length ps' = length ps"
  by (induction ps arbitrary: ps') (auto split: sum.splits)

lemma flow_draw_ok:
  assumes "flow_inv st" "scale \<noteq> 0"
  shows "\<exists>st'. flow_draw noise scale st = Inr st' \<and> flow_inv st' \<and>
           length (particles st') = length (particles st)"
proof -
  let ?f = "map (\<lambda>i. map (\<lambda>j. noise (real i * 0.1) (real j * 0.1) (z_offset st) * TWO_PI * 2)
                                 [0..<nat (rows st)]) [0..<nat (cols st)]"
  let ?st1 = "st\<lparr>field := ?f\<rparr>"
  have shape: "field_shape (cols st) (rows st) (field st)"
    using assms(1) by (simp add: flow_inv_def grid_ok_def)
  have upd: "flow_update_field noise st = Inr ?st1"
    by (rule flow_update_field_ok [OF shape])
  have g1: "grid_ok ?st1"
    using assms(1) by (simp add: flow_inv_def grid_ok_def field_shape_table)
  have wh: "0 \<le> width ?st1" "0 \<le> height ?st1"
    using assms(1) by (simp_all add: flow_inv_def)
  obtain ps' where ps': "flow_move_all scale ?st1 (particles ?st1) = Inr ps'"
      "length ps' = length (particles ?st1)"
      "list_all (in_canvas (width ?st1) (height ?st1)) ps'"
    using flow_move_all_ok [OF g1 assms(2) wh] by blast
  show ?thesis
    using upd ps' g1 wh
    by (simp add: flow_draw_def flow_inv_def grid_ok_def)
qed

lemma flow_run_ok:
  assumes "flow_inv st" "scale \<noteq> 0"
  shows "\<exists>st'. flow_run noise scale n st = Inr st' \<and> flow_inv st' \<and>
           length (particles st') = length (particles st)"
  using assms(1)
proof (induction n arbitrary: st)
  case 0
  then show ?case by simp
next
  case (Suc n)
  obtain st1 where st1: "flow_draw noise scale st = Inr st1" "flow_inv st1"
      "length (particles st1) = length (particles st)"
    using flow_draw_ok [OF Suc.prems assms(2)] by blast
  obtain st' where "flow_run noise scale n st1 = Inr st'" "flow_inv st'"
      "length (particles st') = length (particles st1)"
    using Suc.IH [OF st1(2)] by blast
  with st1 show ?case by simp
qed

lemma ArtParticle_update_age:
  "age (ArtParticle_update w h p) = age p + 1 \<and> lifespan (ArtParticle_update w h p) = lifespan p"
  by (simp add: ArtParticle_update_def Let_def)

lemma list_all_update: "list_all P xs \<Longrightarrow> P q \<Longrightarrow> list_all P (xs[i := q])"
  by (induction xs arbitrary: i) (auto split: nat.splits)

lemma capstone_step_ok:
  assumes "capstone_inv st" "scale \<noteq> 0" "unit_draws g" "palette a \<noteq> []"
      "i < length (particles st)"
  shows "\<exists>st'. capstone_step g scale a i st = Inr st' \<and> capstone_inv st' \<and>
           length (particles st') = length (particles st)"
proof -
  let ?w = "width st" and ?h = "height st"
  let ?p = "particles st ! i"
  have grid: "grid_ok st" and wh: "0 \<le> ?w" "0 \<le> ?h"
    and pool: "list_all (\<lambda>p. alive p \<and> in_canvas ?w ?h p) (particles st)"
    using assms(1) by (simp_all add: capstone_inv_def)
  have get: "py_getitem (particles st) (int i) = Inr ?p"
    using assms(5) by (simp add: py_getitem_def)
  have live: "alive ?p"
    using pool assms(5) by (simp add: list_all_length)
  obtain p1 where p1: "follow scale (cols st) (rows st) (field st) ?p = Inr p1"
    using grid assms(2) follow_grid [of "cols st" "rows st" "field st" scale ?p]
    by (auto simp: grid_ok_def)
  then have keep: "age p1 = age ?p" "lifespan p1 = lifespan ?p"
    using follow_result [OF p1] by auto
  define p2 where "p2 = ArtParticle_update ?w ?h p1"
  have a2: "age p2 = age ?p + 1" "lifespan p2 = lifespan ?p"
    using keep by (simp_all add: p2_def ArtParticle_update_age)
  have canvas2: "in_canvas ?w ?h p2"
    using wh by (simp add: p2_def ArtParticle_update_eq update_in_canvas)
  have "lifespan p2 \<noteq> 0" using live a2 by (auto simp: alive_def)
  then have disp: "ArtParticle_display a p2 =
      Inr ((1 - real_of_int (age p2) / lifespan p2) * opacity a)"
    by (simp add: ArtParticle_display_def py_truediv_def Let_def)
  show ?thesis
  proof (cases "is_dead p2")
    case True
    obtain q where q: "ArtParticle_init g (draws st) ?w ?h a = Inr (q, draws st + 6)"
        "in_canvas ?w ?h q" "alive q"
      using ArtParticle_init_ok [OF assms(3,4) wh] by blast
    have "list_all (\<lambda>p. alive p \<and> in_canvas ?w ?h p) ((particles st)[i := p2, i := q])"
      using pool q by (simp add: list_all_update)
    then show ?thesis
      using get p1 disp True q grid wh
      by (simp add: capstone_step_def Let_def p2_def [symmetric] capstone_inv_def grid_ok_def)
  next
    case False
    then have "alive p2" using live a2 by (simp add: alive_def is_dead_def)
    then have "list_all (\<lambda>p. alive p \<and> in_canvas ?w ?h p) ((particles st)[i := p2])"
      using pool canvas2 by (simp add: list_all_update)
    then show ?thesis
      using get p1 disp False grid wh
      by (simp add: capstone_step_def Let_def p2_def [symmetric] capstone_inv_def grid_ok_def)
  qed
qed

lemma capstone_loop_ok:
  assumes "scale \<noteq> 0" "unit_draws g" "palette a \<noteq> []"
  shows "capstone_inv st \<Longrightarrow> n \<le> length (particles st) \<Longrightarrow>
         \<exists>st'. capstone_loop g scale a n st = Inr st' \<and> capstone_inv st' \<and>
           length (particles st') = length (particles st)"
proof (induction n arbitrary: st)
  case 0
  then show ?case by simp
next
  case (Suc n)
  then have "n < length (particles st)" by simp
  then obtain st1 where st1: "capstone_step g scale a n st = Inr st1" "capstone_inv st1"
      "length (particles st1) = length (particles st)"
    using capstone_step_ok [OF Suc.prems(1) assms] by blast
  moreover have "n \<le> length (particles st1)" using st1(3) Suc.prems(2) by simp
  ultimately obtain st' where "capstone_loop g scale a n st1 = Inr st'" "capstone_inv st'"
      "length (particles st') = length (particles st1)"
    using Suc.IH by blast
  with st1 show ?case by simp
qed

lemma capstone_draw_ok:
  assumes "capstone_inv st" "scale \<noteq> 0" "unit_draws g" "palette a \<noteq> []"
  shows "\<exists>st'. capstone_draw noise g scale a st = Inr st' \<and> capstone_inv st' \<and>
           length (particles st') = length (particles st)"
proof -
  let ?f = "map (\<lambda>i. map (\<lambda>j. noise (real i * flow_scale a * 10) (real j * flow_scale a * 10)
                                            (z_offset st) * TWO_PI * flow_multiplier a)
                                 [0..<nat (rows st)]) [0..<nat (cols st)]"
  let ?st1 = "st\<lparr>field := ?f\<rparr>"
  have shape: "field_shape (cols st) (rows st) (field st)"
    using assms(1) by (simp add: capstone_inv_def grid_ok_def)
  have upd: "capstone_update_field noise a st = Inr ?st1"
    by (rule capstone_update_field_ok [OF shape])
  have inv1: "capstone_inv ?st1"
    using assms(1) by (simp add: capstone_inv_def grid_ok_def field_shape_table)
  obtain st2 where st2: "capstone_loop g scale a (length (particles ?st1)) ?st1 = Inr st2"
      "capstone_inv st2" "length (particles st2) = length (particles ?st1)"
    using capstone_loop_ok [OF assms(2-4) inv1, of "length (particles ?st1)"] by blast
  have "capstone_inv (st2\<lparr>z_offset := z_offset st2 + 0.002\<rparr>)"
    using st2(2) by (simp add: capstone_inv_def grid_ok_def)
  then show ?thesis
    using upd st2 by (simp add: capstone_draw_def)
qed

lemma capstone_run_ok:
  assumes "scale \<noteq> 0" "unit_draws g" "palette a \<noteq> []"
  shows "capstone_inv st \<Longrightarrow>
         \<exists>st'. capstone_run noise g scale a n st = Inr st' \<and> capstone_inv st' \<and>
           length (particles st') = length (particles st)"
proof (induction n arbitrary: st)
  case 0
  then show ?case by simp
next
  case (Suc n)
  obtain st1 where st1: "capstone_draw noise g scale a st = Inr st1" "capstone_inv st1"
      "length (particles st1) = length (particles st)"
    using capstone_draw_ok [OF Suc.prems assms] by blast
  obtain st' where "capstone_run noise g scale a n st1 = Inr st'" "capstone_inv st'"
      "length (particles st') = length (particles st1)"
    using Suc.IH [OF st1(2)] by blast
  with st1 show ?case by simp
qed

subsection \<open>What a frame never changes\<close>

lemma flow_draw_dims:
  "flow_draw noise scale st = Inr st' \<Longrightarrow>
   width st' = width st \<and> height st' = height st \<and> length (particles st') = length (particles st)"
  by (auto simp: flow_draw_def flow_update_field_def Let_def split: sum.splits
      dest: flow_move_all_length)

lemma flow_run_dims:
  "flow_run noise scale n st = Inr st' \<Longrightarrow>
   width st' = width st \<and> height st' = height st \<and> length (particles st') = length (particles st)"
proof (induction n arbitrary: st)
  case 0
  then show ?case by simp
next
  case (Suc n)
  then obtain st1 where st1: "flow_draw noise scale st = Inr st1" "flow_run noise scale n st1 = Inr st'"
    by (auto split: sum.splits)
  show ?case
    using flow_draw_dims [OF st1(1)] Suc.IH [OF st1(2)] by simp
qed

lemma capstone_step_dims:
  "capstone_step g scale a i st = Inr st' \<Longrightarrow>
   width st' = width st \<and> height st' = height st \<and>
   (\<exists>q. particles st' = (particles st)[i := q])"
  by (auto simp: capstone_step_def Let_def split: sum.splits if_splits prod.splits)

lemma capstone_loop_dims:
  "capstone_loop g scale a n st = Inr st' \<Longrightarrow>
   width st' = width st \<and> height st' = height st \<and> length (particles st') = length (particles st)"
proof (induction n arbitrary: st)
  case 0
  then show ?case by simp
next
  case (Suc n)
  then obtain st1 where st1: "capstone_step g scale a n st = Inr st1"
      "capstone_loop g scale a n st1 = Inr st'"
    by (auto split: sum.splits)
  obtain q where "particles st1 = (particles st)[n := q]"
    using capstone_step_dims [OF st1(1)] by blast
  then have "length (particles st1) = length (particles st)" by simp
  then show ?case
    using capstone_step_dims [OF st1(1)] Suc.IH [OF st1(2)] by simp
qed

lemma capstone_draw_dims:
  "capstone_draw noise g scale a st = Inr st' \<Longrightarrow>
   width st' = width st \<and> height st' = height st \<and> length (particles st') = length (particles st)"
  by (auto simp: capstone_draw_def capstone_update_field_def Let_def split: sum.splits
      dest: capstone_loop_dims)

lemma capstone_run_dims:
  "capstone_run noise g scale a n st = Inr st' \<Longrightarrow>
   width st' = width st \<and> height st' = height st \<and> length (particles st') = length (particles st)"
proof (induction n arbitrary: st)
  case 0
  then show ?case by simp
next
  case (Suc n)
  then obtain st1 where st1: "capstone_draw noise g scale a st = Inr st1"
      "capstone_run noise g scale a n st1 = Inr st'"
    by (auto split: sum.splits)
  show ?case
    using capstone_draw_dims [OF st1(1)] Suc.IH [OF st1(2)] by simp
qed

subsection \<open>Constant generators and empty palettes\<close>

lemma unit_draws_constant: "0 \<le> u \<Longrightarrow> u < 1 \<Longrightarrow> unit_draws (constant_draws u)"
  by (simp add: unit_draws_def constant_draws_def)



subsection \<open>Every outcome of the construction\<close>



















section \<open>The claims\<close>

text \<open>
  Claim C1. One call of \<^verbatim>\<open>update_field\<close> on a field that has the shape of the grid
  returns normally, changes nothing but the field, keeps its shape, and leaves in every
  cell \<open>(i, j)\<close> of the grid the angle of the specification,
  \<open>sample (i * noise_scale) (j * noise_scale) time_offset * 2\<pi> * angle_multiplier\<close>,
  where the time offset is \<^verbatim>\<open>z_offset\<close>; lesson 07 fixes the noise scale to \<open>0.1\<close> and
  the multiplier to \<open>2\<close>, the capstone takes the noise scale \<^verbatim>\<open>flow_scale * 10\<close> and
  the multiplier \<^verbatim>\<open>flow_multiplier\<close> of the artist.
\<close>

theorem update_field_sets_every_cell:
  assumes "field_shape (cols st) (rows st) (field st)" "int i < cols st" "int j < rows st"
  shows "(\<exists>F. flow_update_field noise st = Inr (st\<lparr>field := F\<rparr>) \<and>
              field_shape (cols st) (rows st) F \<and>
              F ! i ! j = spec_cell_angle noise 0.1 2 (z_offset st) i j) \<and>
         (\<exists>F. capstone_update_field noise a st = Inr (st\<lparr>field := F\<rparr>) \<and>
              field_shape (cols st) (rows st) F \<and>
              F ! i ! j = spec_cell_angle noise (flow_scale a * 10) (flow_multiplier a) (z_offset st) i j)"
proof -
  have i: "i < nat (cols st)" and j: "j < nat (rows st)"
    using assms(2,3) by simp_all
  let ?F1 = "map (\<lambda>i. map (\<lambda>j. noise (real i * 0.1) (real j * 0.1) (z_offset st) * TWO_PI * 2)
                         [0..<nat (rows st)]) [0..<nat (cols st)]"
  let ?F2 = "map (\<lambda>i. map (\<lambda>j. noise (real i * flow_scale a * 10) (real j * flow_scale a * 10)
                                 (z_offset st) * TWO_PI * flow_multiplier a)
                         [0..<nat (rows st)]) [0..<nat (cols st)]"
  have "flow_update_field noise st = Inr (st\<lparr>field := ?F1\<rparr>)"
    by (rule flow_update_field_ok [OF assms(1)])
  moreover have "field_shape (cols st) (rows st) ?F1"
    by (rule field_shape_table)
  moreover have "?F1 ! i ! j = spec_cell_angle noise 0.1 2 (z_offset st) i j"
    using i j by (simp add: spec_cell_angle_def TWO_PI_def)
  ultimately have flow: "\<exists>F. flow_update_field noise st = Inr (st\<lparr>field := F\<rparr>) \<and>
              field_shape (cols st) (rows st) F \<and>
              F ! i ! j = spec_cell_angle noise 0.1 2 (z_offset st) i j"
    by blast
  have "capstone_update_field noise a st = Inr (st\<lparr>field := ?F2\<rparr>)"
    by (rule capstone_update_field_ok [OF assms(1)])
  moreover have "field_shape (cols st) (rows st) ?F2"
    by (rule field_shape_table)
  moreover have "?F2 ! i ! j =
      spec_cell_angle noise (flow_scale a * 10) (flow_multiplier a) (z_offset st) i j"
    using i j by (simp add: spec_cell_angle_def TWO_PI_def mult.assoc)
  ultimately have "\<exists>F. capstone_update_field noise a st = Inr (st\<lparr>field := F\<rparr>) \<and>
              field_shape (cols st) (rows st) F \<and>
              F ! i ! j = spec_cell_angle noise (flow_scale a * 10) (flow_multiplier a) (z_offset st) i j"
    by blast
  with flow show ?thesis by blast
qed

text \<open>The theorem at a grid of two columns and one row, under a constant noise of \<open>1/4\<close>.\<close>

theorem update_field_sets_every_cell_witness:
  "field_shape 2 1 [[0], [0]] \<and>
   flow_update_field (flat_noise (1/4))
       \<lparr>width = 30, height = 10, cols = 2, rows = 1, field = [[0], [0]],
        particles = ([] :: particle list), z_offset = 0, draws = 0\<rparr>
     = Inr \<lparr>width = 30, height = 10, cols = 2, rows = 1, field = [[pi], [pi]],
            particles = [], z_offset = 0, draws = 0\<rparr> \<and>
   spec_cell_angle (flat_noise (1/4)) 0.1 2 0 1 0 = pi \<and>
   capstone_update_field (flat_noise (1/4)) monet
       \<lparr>width = 30, height = 10, cols = 2, rows = 1, field = [[0], [0]],
        particles = ([] :: particle list), z_offset = 0, draws = 0\<rparr>
     = Inr \<lparr>width = 30, height = 10, cols = 2, rows = 1, field = [[pi / 2], [pi / 2]],
            particles = [], z_offset = 0, draws = 0\<rparr> \<and>
   spec_cell_angle (flat_noise (1/4)) (flow_scale monet * 10) (flow_multiplier monet) 0 1 0 = pi / 2"
proof -
  let ?S = "\<lparr>width = 30, height = 10, cols = 2, rows = 1, field = [[0], [0]],
          particles = ([] :: particle list), z_offset = 0, draws = 0\<rparr>"
  have shape: "field_shape (cols ?S) (rows ?S) (field ?S)"
    by (simp add: field_shape_def)
  have two: "[0..<2] = [0, Suc 0]"
    by (simp add: numeral_2_eq_2)
  have run1: "flow_update_field (flat_noise (1/4)) ?S = Inr (?S\<lparr>field := [[pi], [pi]]\<rparr>)"
    by (simp add: flow_update_field_def fill_field_def set_cell_def two flat_noise_def TWO_PI_def)
  have run2: "capstone_update_field (flat_noise (1/4)) monet ?S = Inr (?S\<lparr>field := [[pi / 2], [pi / 2]]\<rparr>)"
    by (simp add: capstone_update_field_def fill_field_def set_cell_def two flat_noise_def
        TWO_PI_def monet_def)
  show ?thesis
    using shape run1 run2 update_field_sets_every_cell [OF shape, of 1 0 "flat_noise (1/4)" monet]
    by (simp add: spec_cell_angle_def flat_noise_def monet_def)
qed

text \<open>
  Claim C2. A particle at \<open>x = width - 1\<close> with \<open>vx = 10\<close> is wrapped by one
  \<^verbatim>\<open>update()\<close>, after which \<^verbatim>\<open>prev_x\<close> and \<^verbatim>\<open>x\<close> are both the wrapped value
  \<open>0\<close>. In general, whenever \<^verbatim>\<open>update()\<close> wraps a coordinate, the previous position
  on that axis is the wrapped position, and the trail segment from the previous to the
  current position is never longer than the step \<open>(vx, vy)\<close>. This holds for
  \<^verbatim>\<open>FlowParticle.update\<close> and for \<^verbatim>\<open>ArtParticle.update\<close>.
\<close>

theorem wrap_resets_previous_position:
  "(0 \<le> w \<and> self_x p = real_of_int w - 1 \<and> vx p = 10 \<longrightarrow>
      wraps_x w p \<and> self_x (FlowParticle_update w h p) = 0 \<and> prev_x (FlowParticle_update w h p) = 0) \<and>
   (wraps_x w p \<longrightarrow> prev_x (FlowParticle_update w h p) = self_x (FlowParticle_update w h p)) \<and>
   (wraps_y h p \<longrightarrow> prev_y (FlowParticle_update w h p) = self_y (FlowParticle_update w h p)) \<and>
   trail_sq (FlowParticle_update w h p) \<le> (vx p)\<^sup>2 + (vy p)\<^sup>2 \<and>
   (0 \<le> w \<and> self_x q = real_of_int w - 1 \<and> vx q = 10 \<longrightarrow>
      wraps_x w q \<and> self_x (ArtParticle_update w h q) = 0 \<and> prev_x (ArtParticle_update w h q) = 0) \<and>
   (wraps_x w q \<longrightarrow> prev_x (ArtParticle_update w h q) = self_x (ArtParticle_update w h q)) \<and>
   (wraps_y h q \<longrightarrow> prev_y (ArtParticle_update w h q) = self_y (ArtParticle_update w h q)) \<and>
   trail_sq (ArtParticle_update w h q) \<le> (vx q)\<^sup>2 + (vy q)\<^sup>2"
proof -
  have edge: "0 \<le> w \<and> self_x r = real_of_int w - 1 \<and> vx r = 10 \<longrightarrow>
      wraps_x w r \<and> self_x (FlowParticle_update w h r) = 0 \<and> prev_x (FlowParticle_update w h r) = 0"
    for r :: "'b particle_scheme"
    by (simp add: wraps_x_def FlowParticle_update_def Let_def)
  have wx: "wraps_x w (q\<lparr>age := age q + 1\<rparr>) = wraps_x w q"
    and wy: "wraps_y h (q\<lparr>age := age q + 1\<rparr>) = wraps_y h q"
    by (simp_all add: wraps_x_def wraps_y_def)
  show ?thesis
    using edge [of p] edge [of "q\<lparr>age := age q + 1\<rparr>"]
      update_wrap_x [of w p h] update_wrap_y [of h p w] update_trail [of w h p]
      update_wrap_x [of w "q\<lparr>age := age q + 1\<rparr>" h] update_wrap_y [of h "q\<lparr>age := age q + 1\<rparr>" w]
      update_trail [of w h "q\<lparr>age := age q + 1\<rparr>"]
    by (simp add: ArtParticle_update_eq wx wy)
qed

text \<open>The theorem at a particle that leaves an 800 by 600 canvas to the right and at the top.\<close>

theorem wrap_resets_previous_position_witness:
  "(0 :: int) \<le> 800 \<and>
   wraps_x 800 \<lparr>self_x = 799, self_y = 1, prev_x = 789, prev_y = 4, vx = 10, vy = - 3,
       max_speed = 11, col = (142, 178, 197)\<rparr> \<and>
   wraps_y 600 \<lparr>self_x = 799, self_y = 1, prev_x = 789, prev_y = 4, vx = 10, vy = - 3,
       max_speed = 11, col = (142, 178, 197)\<rparr> \<and>
   FlowParticle_update 800 600
     \<lparr>self_x = 799, self_y = 1, prev_x = 789, prev_y = 4, vx = 10, vy = - 3,
       max_speed = 11, col = (142, 178, 197)\<rparr>
     = \<lparr>self_x = 0, self_y = 600, prev_x = 0, prev_y = 600, vx = 10, vy = - 3,
       max_speed = 11, col = (142, 178, 197)\<rparr> \<and>
   ArtParticle_update 800 600
     \<lparr>self_x = 799, self_y = 1, prev_x = 789, prev_y = 4, vx = 10, vy = - 3,
       max_speed = 11, col = (142, 178, 197), stroke_weight = 2, lifespan = 150, age = 7\<rparr>
     = \<lparr>self_x = 0, self_y = 600, prev_x = 0, prev_y = 600, vx = 10, vy = - 3,
       max_speed = 11, col = (142, 178, 197), stroke_weight = 2, lifespan = 150, age = 8\<rparr>"
  using wrap_resets_previous_position [of 800
      "\<lparr>self_x = 799, self_y = 1, prev_x = 789, prev_y = 4, vx = 10, vy = - 3,
        max_speed = 11, col = (142, 178, 197)\<rparr>" 600
      "\<lparr>self_x = 799, self_y = 1, prev_x = 789, prev_y = 4, vx = 10, vy = - 3,
        max_speed = 11, col = (142, 178, 197), stroke_weight = 2, lifespan = 150, age = 7\<rparr>"]
  by (simp add: wraps_x_def wraps_y_def FlowParticle_update_def ArtParticle_update_def)

text \<open>
  Claim C3. On a well-formed grid and for every position \<open>(x, y)\<close> of a particle, inside
  the canvas, on its edge or beyond it, \<^verbatim>\<open>follow\<close> computes the indices
  \<^verbatim>\<open>int(x / scale)\<close> and \<^verbatim>\<open>int(y / scale)\<close>, clamps them to \<open>[0, cols - 1]\<close> and
  \<open>[0, rows - 1]\<close>, finds both subscripts inside the field and returns normally, with
  the velocity taken from the angle stored in that cell. For a positive \<^verbatim>\<open>scale\<close> the
  clamped indices are those of the floor division.
\<close>

theorem cell_lookup_in_bounds:
  assumes "grid_ok st" "scale \<noteq> 0"
  shows "(let c = constrain (py_int (self_x p / scale)) 0 (cols st - 1);
              r = constrain (py_int (self_y p / scale)) 0 (rows st - 1)
          in 0 \<le> c \<and> c \<le> cols st - 1 \<and> 0 \<le> r \<and> r \<le> rows st - 1 \<and>
             nat c < length (field st) \<and> nat r < length (field st ! nat c) \<and>
             (0 < scale \<longrightarrow> c = max 0 (min (cols st - 1) \<lfloor>self_x p / scale\<rfloor>) \<and>
                              r = max 0 (min (rows st - 1) \<lfloor>self_y p / scale\<rfloor>)) \<and>
             follow scale (cols st) (rows st) (field st) p =
               Inr (p\<lparr>vx := cos (field st ! nat c ! nat r) * max_speed p,
                      vy := sin (field st ! nat c ! nat r) * max_speed p\<rparr>))"
proof -
  let ?c = "constrain (py_int (self_x p / scale)) 0 (cols st - 1)"
  let ?r = "constrain (py_int (self_y p / scale)) 0 (rows st - 1)"
  have dims: "1 \<le> cols st" "1 \<le> rows st"
    and shape: "field_shape (cols st) (rows st) (field st)"
    using assms(1) by (simp_all add: grid_ok_def)
  have c: "0 \<le> ?c \<and> ?c \<le> cols st - 1"
    using dims constrain_bounds [of 0 "cols st - 1"] by simp
  have r: "0 \<le> ?r \<and> ?r \<le> rows st - 1"
    using dims constrain_bounds [of 0 "rows st - 1"] by simp
  have lc: "nat ?c < length (field st)"
    using c shape by (simp add: field_shape_def)
  then have "field st ! nat ?c \<in> set (field st)" by simp
  then have lr: "nat ?r < length (field st ! nat ?c)"
    using r shape dims by (simp add: field_shape_def list_all_iff)
  have trunc: "constrain (py_int q) 0 hi = max 0 (min hi \<lfloor>q\<rfloor>)" if "0 \<le> hi" for q :: real and hi :: int
  proof (cases "0 \<le> q")
    case True
    then have "0 \<le> \<lfloor>q\<rfloor>" by simp
    with True that show ?thesis by (simp add: py_int_def constrain_def)
  next
    case False
    have ints: "k \<le> 0 \<Longrightarrow> m < 0 \<Longrightarrow> constrain k 0 hi = max 0 (min hi m)" for k m :: int
      using that by (auto simp: constrain_def)
    from False have "\<lceil>q\<rceil> \<le> 0" "\<lfloor>q\<rfloor> < 0"
      by (simp_all add: floor_less_iff ceiling_le_iff)
    then have "constrain \<lceil>q\<rceil> 0 hi = max 0 (min hi \<lfloor>q\<rfloor>)"
      by (rule ints)
    with False show ?thesis by (simp add: py_int_def)
  qed
  have fc: "?c = max 0 (min (cols st - 1) \<lfloor>self_x p / scale\<rfloor>)"
    using trunc [of "cols st - 1" "self_x p / scale"] dims by simp
  have fr: "?r = max 0 (min (rows st - 1) \<lfloor>self_y p / scale\<rfloor>)"
    using trunc [of "rows st - 1" "self_y p / scale"] dims by simp
  note fg = follow_grid [OF shape dims assms(2), of p]
  show ?thesis
    unfolding Let_def using c r lc lr fc fr fg by blast
qed

text \<open>The theorem at a position right of and above a grid of two columns and one row.\<close>

theorem cell_lookup_in_bounds_witness:
  "grid_ok \<lparr>width = 30, height = 10, cols = 2, rows = 1, field = [[0], [pi]],
        particles = ([] :: particle list), z_offset = 0, draws = 0\<rparr> \<and>
   (20 :: real) \<noteq> 0 \<and>
   constrain (py_int (1000 / 20)) 0 (2 - 1) = 1 \<and>
   constrain (py_int (- 20 / 20)) 0 (1 - 1) = 0 \<and>
   follow 20 2 1 [[0], [pi]]
     \<lparr>self_x = 1000, self_y = - 20, prev_x = 30, prev_y = 5, vx = 0, vy = 0,
       max_speed = 3, col = (142, 178, 197)\<rparr>
     = Inr \<lparr>self_x = 1000, self_y = - 20, prev_x = 30, prev_y = 5, vx = - 3, vy = 0,
       max_speed = 3, col = (142, 178, 197)\<rparr>"
proof -
  have ok: "grid_ok \<lparr>width = 30, height = 10, cols = 2, rows = 1, field = [[0], [pi]],
        particles = ([] :: particle list), z_offset = 0, draws = 0\<rparr>"
    by (simp add: grid_ok_def field_shape_def)
  have cx: "constrain (py_int (1000 / 20)) 0 (2 - 1) = 1"
    and cy: "constrain (py_int (- 20 / 20)) 0 (1 - 1) = 0"
    by (simp_all add: constrain_def py_int_def)
  show ?thesis
    using ok cx cy cell_lookup_in_bounds [OF ok, of 20
        "\<lparr>self_x = 1000, self_y = - 20, prev_x = 30, prev_y = 5, vx = 0, vy = 0,
          max_speed = 3, col = (142, 178, 197)\<rparr>"]
    by (simp add: Let_def)
qed

text \<open>
  Claim C4, as amended. For a positive width, height and \<^verbatim>\<open>scale\<close>, both
  \<^verbatim>\<open>setup()\<close> functions make a grid of \<open>\<lfloor>width / scale\<rfloor> + 1\<close> columns and
  \<open>\<lfloor>height / scale\<rfloor> + 1\<close> rows. That is the ceiling of the quotient when the quotient
  is not a whole number, and one more than the ceiling when it is.
\<close>

theorem grid_dimensions:
  assumes "0 < w" "0 < h" "0 < scale"
  shows "(flow_setup g w h scale n pal = Inr st \<longrightarrow>
            cols st = \<lfloor>real_of_int w / scale\<rfloor> + 1 \<and> rows st = \<lfloor>real_of_int h / scale\<rfloor> + 1) \<and>
         (capstone_setup g w h scale m a = Inr st' \<longrightarrow>
            cols st' = \<lfloor>real_of_int w / scale\<rfloor> + 1 \<and> rows st' = \<lfloor>real_of_int h / scale\<rfloor> + 1) \<and>
         \<lfloor>real_of_int w / scale\<rfloor> + 1 =
            (if real_of_int w / scale \<in> \<int> then \<lceil>real_of_int w / scale\<rceil> + 1
             else \<lceil>real_of_int w / scale\<rceil>) \<and>
         \<lfloor>real_of_int h / scale\<rfloor> + 1 =
            (if real_of_int h / scale \<in> \<int> then \<lceil>real_of_int h / scale\<rceil> + 1
             else \<lceil>real_of_int h / scale\<rceil>)"
proof -
  have w: "0 \<le> w" and h: "0 \<le> h" using assms by simp_all
  have ceil: "\<lfloor>q\<rfloor> + 1 = (if q \<in> \<int> then \<lceil>q\<rceil> + 1 else \<lceil>q\<rceil>)" for q :: real
  proof (cases "q \<in> \<int>")
    case True
    then obtain k where "q = real_of_int k" by (auto elim: Ints_cases)
    then show ?thesis by simp
  next
    case False
    then have "q \<noteq> real_of_int \<lfloor>q\<rfloor>" by (metis Ints_of_int)
    with False show ?thesis by (simp add: ceiling_altdef)
  qed
  show ?thesis
    using flow_setup_fields [of g w h scale n pal st] capstone_setup_fields [of g w h scale m a st']
      grid_dim_value [OF assms(3) w] grid_dim_value [OF assms(3) h] ceil
    by auto
qed

text \<open>The theorem at a canvas of 50 by 20 with cells of 20.\<close>

theorem grid_dimensions_witness:
  "(0 :: int) < 50 \<and> (0 :: int) < 20 \<and> (0 :: real) < 20 \<and>
   flow_setup (constant_draws (1/2)) 50 20 20 0 [] =
     Inr \<lparr>width = 50, height = 20, cols = 3, rows = 2, field = new_field 3 2,
          particles = [], z_offset = 0, draws = 0\<rparr> \<and>
   capstone_setup (constant_draws (1/2)) 50 20 20 0 monet =
     Inr \<lparr>width = 50, height = 20, cols = 3, rows = 2, field = new_field 3 2,
          particles = [], z_offset = 0, draws = 0\<rparr> \<and>
   \<lfloor>(50 :: real) / 20\<rfloor> + 1 = 3 \<and> \<lceil>(50 :: real) / 20\<rceil> = 3 \<and>
   \<lfloor>(20 :: real) / 20\<rfloor> + 1 = 2 \<and> \<lceil>(20 :: real) / 20\<rceil> + 1 = 2"
proof -
  have run1: "flow_setup (constant_draws (1/2)) 50 20 20 0 [] =
     Inr \<lparr>width = 50, height = 20, cols = 3, rows = 2, field = new_field 3 2,
          particles = [], z_offset = 0, draws = 0\<rparr>"
    by (simp add: flow_setup_def grid_dim_def py_truediv_def py_int_def)
  have run2: "capstone_setup (constant_draws (1/2)) 50 20 20 0 monet =
     Inr \<lparr>width = 50, height = 20, cols = 3, rows = 2, field = new_field 3 2,
          particles = [], z_offset = 0, draws = 0\<rparr>"
    by (simp add: capstone_setup_def grid_dim_def py_truediv_def py_int_def)
  show ?thesis
    using run1 run2 grid_dimensions [of 50 20 20 "constant_draws (1/2)" 0 "[]"
        "\<lparr>width = 50, height = 20, cols = 3, rows = 2, field = new_field 3 2,
          particles = [], z_offset = 0, draws = 0\<rparr>" 0 monet
        "\<lparr>width = 50, height = 20, cols = 3, rows = 2, field = new_field 3 2,
          particles = [], z_offset = 0, draws = 0\<rparr>"]
    by simp
qed

text \<open>
  The claim as first stated, \<open>columns = \<lceil>width / scale\<rceil>\<close>, fails for the canvas of
  lesson 07: 800 by 600 with cells of 20 gives 41 columns and 31 rows, and the ceilings
  are 40 and 30.
\<close>

theorem grid_dimensions_counterexample:
  "flow_setup (constant_draws (1/2)) 800 600 20 0 [] =
     Inr \<lparr>width = 800, height = 600, cols = 41, rows = 31, field = new_field 41 31,
          particles = [], z_offset = 0, draws = 0\<rparr>
   \<and> \<lceil>(800 :: real) / 20\<rceil> = 40 \<and> \<lceil>(600 :: real) / 20\<rceil> = 30"
  by (simp add: flow_setup_def grid_dim_def py_truediv_def py_int_def)

text \<open>
  Claim C5, as amended. On a canvas of non-negative width and height, the position after
  every \<^verbatim>\<open>update()\<close> lies in the closed box \<open>[0, width] \<times> [0, height]\<close>, for
  \<^verbatim>\<open>FlowParticle\<close> and \<^verbatim>\<open>ArtParticle\<close> alike; and after \<^verbatim>\<open>setup()\<close> and any number
  of frames (with a positive \<^verbatim>\<open>scale\<close>, a palette that is not empty and random draws from
  the unit interval) every particle of the pool lies in that closed box.
\<close>

theorem positions_stay_in_closed_canvas:
  assumes "0 \<le> w" "0 \<le> h"
  shows "in_canvas w h (FlowParticle_update w h p) \<and>
         in_canvas w h (ArtParticle_update w h q) \<and>
         (unit_draws g \<and> pal \<noteq> [] \<and> 0 < scale \<longrightarrow>
            (\<exists>st0 st. flow_setup g w h scale n pal = Inr st0 \<and>
               flow_run noise scale k st0 = Inr st \<and>
               list_all (in_canvas w h) (particles st))) \<and>
         (unit_draws g \<and> palette a \<noteq> [] \<and> 0 < scale \<longrightarrow>
            (\<exists>st0 st. capstone_setup g w h scale m a = Inr st0 \<and>
               capstone_run noise g scale a k st0 = Inr st \<and>
               list_all (in_canvas w h) (particles st)))"
proof -
  have one: "in_canvas w h (FlowParticle_update w h p)" "in_canvas w h (ArtParticle_update w h q)"
    using assms by (simp_all add: ArtParticle_update_eq update_in_canvas)
  have flow: "\<exists>st0 st. flow_setup g w h scale n pal = Inr st0 \<and>
               flow_run noise scale k st0 = Inr st \<and>
               list_all (in_canvas w h) (particles st)"
    if ug: "unit_draws g" and ne: "pal \<noteq> []" and sc: "0 < scale"
  proof -
    obtain st0 where st0: "flow_setup g w h scale n pal = Inr st0" "flow_inv st0"
      using flow_setup_ok [OF ug ne assms sc] by blast
    have "scale \<noteq> 0" using sc by simp
    then obtain st where st: "flow_run noise scale k st0 = Inr st" "flow_inv st"
      using flow_run_ok [OF st0(2)] by blast
    have "width st = w" "height st = h"
      using flow_run_dims [OF st(1)] flow_setup_fields [OF st0(1)] by simp_all
    then have "list_all (in_canvas w h) (particles st)"
      using st(2) by (simp add: flow_inv_def)
    with st0 st show ?thesis by blast
  qed
  have capstone: "\<exists>st0 st. capstone_setup g w h scale m a = Inr st0 \<and>
               capstone_run noise g scale a k st0 = Inr st \<and>
               list_all (in_canvas w h) (particles st)"
    if ug: "unit_draws g" and ne: "palette a \<noteq> []" and sc: "0 < scale"
  proof -
    obtain st0 where st0: "capstone_setup g w h scale m a = Inr st0" "capstone_inv st0"
      using capstone_setup_ok [OF ug ne assms sc] by blast
    have "scale \<noteq> 0" using sc by simp
    then obtain st where st: "capstone_run noise g scale a k st0 = Inr st" "capstone_inv st"
      using capstone_run_ok [OF _ ug ne st0(2)] by blast
    have "width st = w" "height st = h"
      using capstone_run_dims [OF st(1)] capstone_setup_fields [OF st0(1)] by simp_all
    then have "list_all (in_canvas w h) (particles st)"
      using st(2) by (simp add: capstone_inv_def list_all_iff)
    with st0 st show ?thesis by blast
  qed
  from one flow capstone show ?thesis by blast
qed

text \<open>
  The theorem on the canvas of lesson 07, with a particle that leaves it to the left, and
  with 400 frames of both sketches.
\<close>

theorem positions_stay_in_closed_canvas_witness:
  "(0 :: int) \<le> 800 \<and> (0 :: int) \<le> 600 \<and>
   in_canvas 800 600 (FlowParticle_update 800 600
     \<lparr>self_x = 0, self_y = 0, prev_x = 0, prev_y = 0, vx = - 2, vy = 0,
       max_speed = 2, col = (142, 178, 197)\<rparr>) \<and>
   self_x (FlowParticle_update 800 600
     \<lparr>self_x = 0, self_y = 0, prev_x = 0, prev_y = 0, vx = - 2, vy = 0,
       max_speed = 2, col = (142, 178, 197)\<rparr>) = 800 \<and>
   unit_draws (constant_draws (1/2)) \<and> palette monet \<noteq> [] \<and>
   (\<exists>st0 st. flow_setup (constant_draws (1/2)) 800 600 20 500 (palette monet) = Inr st0 \<and>
      flow_run (flat_noise (1/4)) 20 400 st0 = Inr st \<and>
      list_all (in_canvas 800 600) (particles st)) \<and>
   (\<exists>st0 st. capstone_setup (constant_draws (1/2)) 800 600 20 200 monet = Inr st0 \<and>
      capstone_run (flat_noise (1/4)) (constant_draws (1/2)) 20 monet 400 st0 = Inr st \<and>
      list_all (in_canvas 800 600) (particles st))"
proof -
  have u: "unit_draws (constant_draws (1/2))"
    by (simp add: unit_draws_constant)
  have ne: "palette monet \<noteq> []"
    by (simp add: monet_def)
  show ?thesis
    using u ne positions_stay_in_closed_canvas [of 800 600
        "\<lparr>self_x = 0, self_y = 0, prev_x = 0, prev_y = 0, vx = - 2, vy = 0,
          max_speed = 2, col = (142, 178, 197)\<rparr>" _ "constant_draws (1/2)" "palette monet" 20
        500 "flat_noise (1/4)" 400 monet 200]
    by (simp add: FlowParticle_update_def)
qed

text \<open>
  The claim as first stated, with the half-open box \<open>[0, width) \<times> [0, height)\<close>, fails
  in lesson 07 after one frame: a particle that starts at \<open>x = 0\<close> and is sent to the left
  is wrapped to \<open>x = width = 800\<close>.
\<close>

theorem positions_half_open_counterexample:
  "flow_setup (constant_draws 0) 800 600 20 1 [(142, 178, 197)] =
     Inr \<lparr>width = 800, height = 600, cols = 41, rows = 31, field = new_field 41 31,
          particles = [\<lparr>self_x = 0, self_y = 0, prev_x = 0, prev_y = 0, vx = 0, vy = 0,
                        max_speed = 2, col = (142, 178, 197)\<rparr>],
          z_offset = 0, draws = 4\<rparr> \<and>
   map_sum id particles
     (flow_draw (flat_noise (1/4)) 20
        \<lparr>width = 800, height = 600, cols = 41, rows = 31, field = new_field 41 31,
          particles = [\<lparr>self_x = 0, self_y = 0, prev_x = 0, prev_y = 0, vx = 0, vy = 0,
                        max_speed = 2, col = (142, 178, 197)\<rparr>],
          z_offset = 0, draws = 4\<rparr>)
     = Inr [\<lparr>self_x = 800, self_y = 0, prev_x = 800, prev_y = 0, vx = - 2, vy = 0,
             max_speed = 2, col = (142, 178, 197)\<rparr>] \<and>
   \<not> in_half_open_canvas 800 600
       \<lparr>self_x = 800, self_y = 0, prev_x = 800, prev_y = 0, vx = - 2, vy = 0,
         max_speed = 2, col = (142, 178, 197)\<rparr>"
proof -
  let ?P = "\<lparr>self_x = 0, self_y = 0, prev_x = 0, prev_y = 0, vx = 0, vy = 0,
                        max_speed = 2, col = (142, 178, 197)\<rparr>"
  let ?S = "\<lparr>width = 800, height = 600, cols = 41, rows = 31, field = new_field 41 31,
          particles = [?P], z_offset = 0, draws = 4\<rparr>"
  let ?F = "map (\<lambda>i. map (\<lambda>j. flat_noise (1/4) (real i * 0.1) (real j * 0.1) (z_offset ?S) * TWO_PI * 2)
                         [0..<nat (rows ?S)]) [0..<nat (cols ?S)]"
  have made: "flow_setup (constant_draws 0) 800 600 20 1 [(142, 178, 197)] = Inr ?S"
    by (simp add: flow_setup_def grid_dim_def py_truediv_def py_int_def FlowParticle_init_def
        constant_draws_def random1_def random2_def py_getitem_def)
  have shape: "field_shape (cols ?S) (rows ?S) (field ?S)"
    by (simp add: field_shape_new)
  have upd: "flow_update_field (flat_noise (1/4)) ?S = Inr (?S\<lparr>field := ?F\<rparr>)"
    by (rule flow_update_field_ok [OF shape])
  have shapeF: "field_shape 41 31 ?F"
    using field_shape_table [of 41 31] by simp
  have cell: "?F ! 0 ! 0 = pi"
    by (simp add: flat_noise_def TWO_PI_def)
  have fol: "follow 20 41 31 ?F ?P = Inr (?P\<lparr>vx := - 2, vy := 0\<rparr>)"
    using follow_grid [OF shapeF, of 20 ?P] cell
    by (simp add: py_int_def constrain_def)
  have mv: "FlowParticle_update 800 600 (?P\<lparr>vx := - 2, vy := 0\<rparr>) =
      \<lparr>self_x = 800, self_y = 0, prev_x = 800, prev_y = 0, vx = - 2, vy = 0,
             max_speed = 2, col = (142, 178, 197)\<rparr>"
    by (simp add: FlowParticle_update_def)
  have "flow_draw (flat_noise (1/4)) 20 ?S =
     Inr (?S\<lparr>field := ?F, particles := [\<lparr>self_x = 800, self_y = 0, prev_x = 800, prev_y = 0, vx = - 2, vy = 0,
             max_speed = 2, col = (142, 178, 197)\<rparr>], z_offset := 0.003\<rparr>)"
    using upd fol mv by (simp add: flow_draw_def)
  then show ?thesis
    using made by (simp add: in_half_open_canvas_def)
qed

text \<open>
  Claim C6. In the capstone the pool has \<^verbatim>\<open>max_particles\<close> particles after
  \<^verbatim>\<open>setup()\<close> and after any number of frames; one pass of the loop body of
  \<^verbatim>\<open>draw()\<close> changes the pool at its own index only, so a dead particle is replaced
  in place. With a positive \<^verbatim>\<open>scale\<close>, a canvas of non-negative size, a palette that
  is not empty and random draws from the unit interval, \<^verbatim>\<open>setup()\<close> and every frame
  do return, and no particle of the pool is dead between two frames.
\<close>

theorem pool_size_invariant:
  "(capstone_setup g w h scale m a = Inr st0 \<and> capstone_run noise g scale a k st0 = Inr st \<longrightarrow>
      length (particles st0) = nat m \<and> length (particles st) = nat m) \<and>
   (capstone_step g scale a i st1 = Inr st2 \<longrightarrow> (\<exists>q. particles st2 = (particles st1)[i := q])) \<and>
   (unit_draws g \<and> palette a \<noteq> [] \<and> 0 \<le> w \<and> 0 \<le> h \<and> 0 < scale \<longrightarrow>
      (\<exists>st0 st. capstone_setup g w h scale m a = Inr st0 \<and>
         capstone_run noise g scale a k st0 = Inr st \<and>
         length (particles st) = nat m \<and> list_all alive (particles st)))"
proof -
  have len: "length (particles st0) = nat m \<and> length (particles st) = nat m"
    if made: "capstone_setup g w h scale m a = Inr st0"
      and ran: "capstone_run noise g scale a k st0 = Inr st"
    using capstone_setup_fields [OF made] capstone_run_dims [OF ran] by simp
  have place: "\<exists>q. particles st2 = (particles st1)[i := q]"
    if "capstone_step g scale a i st1 = Inr st2"
    using capstone_step_dims [OF that] by blast
  have total: "\<exists>st0 st. capstone_setup g w h scale m a = Inr st0 \<and>
         capstone_run noise g scale a k st0 = Inr st \<and>
         length (particles st) = nat m \<and> list_all alive (particles st)"
    if ug: "unit_draws g" and ne: "palette a \<noteq> []" and w: "0 \<le> w" and h: "0 \<le> h"
      and sc: "0 < scale"
  proof -
    obtain s0 where s0: "capstone_setup g w h scale m a = Inr s0" "capstone_inv s0"
      using capstone_setup_ok [OF ug ne w h sc] by blast
    have "scale \<noteq> 0" using sc by simp
    then obtain s where s: "capstone_run noise g scale a k s0 = Inr s" "capstone_inv s"
      using capstone_run_ok [OF _ ug ne s0(2)] by blast
    have "length (particles s) = nat m"
      using capstone_setup_fields [OF s0(1)] capstone_run_dims [OF s(1)] by simp
    moreover have "list_all alive (particles s)"
      using s(2) by (simp add: capstone_inv_def list_all_iff)
    ultimately show ?thesis using s0 s by blast
  qed
  from len place total show ?thesis by blast
qed

text \<open>
  The theorem at a pool of one particle run for one frame, at a loop body that replaces a
  dead particle, and at the capstone's own configuration run for 1000 frames.
\<close>

theorem pool_size_invariant_witness:
  "capstone_setup (constant_draws (1/2)) 30 10 20 1 monet =
     Inr \<lparr>width = 30, height = 10, cols = 2, rows = 1, field = [[0], [0]],
          particles = [\<lparr>self_x = 15, self_y = 5, prev_x = 15, prev_y = 5, vx = 0, vy = 0,
                        max_speed = 9 / 4, col = (168, 199, 168), stroke_weight = 2,
                        lifespan = 200, age = 0\<rparr>],
          z_offset = 0, draws = 6\<rparr> \<and>
   capstone_run (flat_noise 0) (constant_draws (1/2)) 20 monet 1
       \<lparr>width = 30, height = 10, cols = 2, rows = 1, field = [[0], [0]],
        particles = [\<lparr>self_x = 15, self_y = 5, prev_x = 15, prev_y = 5, vx = 0, vy = 0,
                      max_speed = 9 / 4, col = (168, 199, 168), stroke_weight = 2,
                      lifespan = 200, age = 0\<rparr>],
        z_offset = 0, draws = 6\<rparr>
     = Inr \<lparr>width = 30, height = 10, cols = 2, rows = 1, field = [[0], [0]],
            particles = [\<lparr>self_x = 69 / 4, self_y = 5, prev_x = 15, prev_y = 5, vx = 9 / 4,
                          vy = 0, max_speed = 9 / 4, col = (168, 199, 168), stroke_weight = 2,
                          lifespan = 200, age = 1\<rparr>],
            z_offset = 1 / 500, draws = 6\<rparr> \<and>
   capstone_step (constant_draws (1/2)) 20 monet 0
       \<lparr>width = 30, height = 10, cols = 2, rows = 1, field = [[0], [0]],
        particles = [\<lparr>self_x = 15, self_y = 5, prev_x = 15, prev_y = 5, vx = 0, vy = 0,
                      max_speed = 9 / 4, col = (168, 199, 168), stroke_weight = 2,
                      lifespan = 1 / 2, age = 0\<rparr>],
        z_offset = 0, draws = 6\<rparr>
     = Inr \<lparr>width = 30, height = 10, cols = 2, rows = 1, field = [[0], [0]],
            particles = [\<lparr>self_x = 15, self_y = 5, prev_x = 15, prev_y = 5, vx = 0, vy = 0,
                          max_speed = 9 / 4, col = (168, 199, 168), stroke_weight = 2,
                          lifespan = 200, age = 0\<rparr>],
            z_offset = 0, draws = 12\<rparr> \<and>
   unit_draws (constant_draws (1/2)) \<and> palette monet \<noteq> [] \<and>
   (\<exists>st0 st. capstone_setup (constant_draws (1/2)) 1200 800 15 800 monet = Inr st0 \<and>
      capstone_run (flat_noise (1/4)) (constant_draws (1/2)) 15 monet 1000 st0 = Inr st \<and>
      length (particles st) = nat 800 \<and> list_all alive (particles st))"
proof -
  let ?g = "constant_draws (1/2)"
  let ?P0 = "\<lparr>self_x = 15, self_y = 5, prev_x = 15, prev_y = 5, vx = 0, vy = 0,
                        max_speed = 9 / 4, col = (168, 199, 168), stroke_weight = 2,
                        lifespan = 200, age = 0\<rparr>"
  let ?S0 = "\<lparr>width = 30, height = 10, cols = 2, rows = 1, field = [[0], [0]],
          particles = [?P0], z_offset = 0, draws = 6\<rparr>"
  let ?Q0 = "\<lparr>self_x = 15, self_y = 5, prev_x = 15, prev_y = 5, vx = 0, vy = 0,
                      max_speed = 9 / 4, col = (168, 199, 168), stroke_weight = 2,
                      lifespan = 1 / 2, age = 0\<rparr>"
  let ?T0 = "\<lparr>width = 30, height = 10, cols = 2, rows = 1, field = [[0], [0]],
          particles = [?Q0], z_offset = 0, draws = 6\<rparr>"
  have u: "unit_draws ?g"
    by (simp add: unit_draws_constant)
  have ne: "palette monet \<noteq> []"
    by (simp add: monet_def)
  have fresh: "ArtParticle_init ?g k 30 10 monet = Inr (?P0, k + 6)" for k
    by (simp add: ArtParticle_init_def constant_draws_def random1_def random2_def
        py_getitem_def py_int_def monet_def)
  have made: "capstone_setup ?g 30 10 20 1 monet = Inr ?S0"
    using fresh [of 0]
    by (simp add: capstone_setup_def grid_dim_def py_truediv_def py_int_def new_field_def
        numeral_2_eq_2)
  have two: "[0..<2] = [0, Suc 0]"
    by (simp add: numeral_2_eq_2)
  have upd: "capstone_update_field (flat_noise 0) monet ?S0 = Inr ?S0"
    by (simp add: capstone_update_field_def fill_field_def set_cell_def two flat_noise_def)
  have fol: "follow 20 2 1 [[0], [0]] ?P0 = Inr (?P0\<lparr>vx := 9 / 4, vy := 0\<rparr>)"
    by (simp add: follow_def py_truediv_def py_int_def constrain_def py_getitem_def)
  have step: "capstone_step ?g 20 monet 0 ?S0 =
      Inr (?S0\<lparr>particles := [\<lparr>self_x = 69 / 4, self_y = 5, prev_x = 15, prev_y = 5, vx = 9 / 4,
                          vy = 0, max_speed = 9 / 4, col = (168, 199, 168), stroke_weight = 2,
                          lifespan = 200, age = 1\<rparr>]\<rparr>)"
    using fol
    by (simp add: capstone_step_def py_getitem_def ArtParticle_update_def
        ArtParticle_display_def py_truediv_def is_dead_def)
  have ran: "capstone_run (flat_noise 0) ?g 20 monet 1 ?S0 =
      Inr \<lparr>width = 30, height = 10, cols = 2, rows = 1, field = [[0], [0]],
            particles = [\<lparr>self_x = 69 / 4, self_y = 5, prev_x = 15, prev_y = 5, vx = 9 / 4,
                          vy = 0, max_speed = 9 / 4, col = (168, 199, 168), stroke_weight = 2,
                          lifespan = 200, age = 1\<rparr>],
            z_offset = 1 / 500, draws = 6\<rparr>"
    using upd step by (simp add: capstone_draw_def)
  have fol2: "follow 20 2 1 [[0], [0]] ?Q0 = Inr (?Q0\<lparr>vx := 9 / 4, vy := 0\<rparr>)"
    by (simp add: follow_def py_truediv_def py_int_def constrain_def py_getitem_def)
  have replaced: "capstone_step ?g 20 monet 0 ?T0 = Inr (?T0\<lparr>particles := [?P0], draws := 12\<rparr>)"
    using fol2 fresh [of 6]
    by (simp add: capstone_step_def py_getitem_def ArtParticle_update_def
        ArtParticle_display_def py_truediv_def is_dead_def)
  show ?thesis
    using u ne made ran replaced
      pool_size_invariant [of ?g 30 10 20 1 monet ?S0 "flat_noise 0" 1 _ 0 ?T0 _]
      pool_size_invariant [of ?g 1200 800 15 800 monet _ "flat_noise (1/4)" 1000 _ _ _ _]
    by simp
qed

text \<open>
  Claim C7, as amended. For a particle of the pool (its age has not reached its lifespan)
  that \<^verbatim>\<open>draw()\<close> sends through \<^verbatim>\<open>follow\<close> and \<^verbatim>\<open>update\<close>, the alpha of
  \<^verbatim>\<open>display\<close> is \<open>(1 - age / lifespan) * opacity\<close> at the age after the increment of
  this frame. With a non-negative opacity it is at most \<open>opacity\<close> and at
  least \<open>- opacity / lifespan\<close>; it is non-negative when that age does not exceed the
  lifespan, and negative (for a positive opacity) in the one frame where it does.
\<close>

theorem render_alpha_range:
  assumes "alive p" "0 \<le> opacity a" "follow scale c r f p = Inr p1"
  shows "ArtParticle_display a (ArtParticle_update w h p1) =
           Inr ((1 - (real_of_int (age p) + 1) / lifespan p) * opacity a) \<and>
         age (ArtParticle_update w h p1) = age p + 1 \<and>
         lifespan (ArtParticle_update w h p1) = lifespan p \<and>
         (1 - (real_of_int (age p) + 1) / lifespan p) * opacity a \<le> opacity a \<and>
         - (opacity a / lifespan p) \<le> (1 - (real_of_int (age p) + 1) / lifespan p) * opacity a \<and>
         (real_of_int (age p) + 1 \<le> lifespan p \<longrightarrow>
            0 \<le> (1 - (real_of_int (age p) + 1) / lifespan p) * opacity a) \<and>
         (lifespan p < real_of_int (age p) + 1 \<and> 0 < opacity a \<longrightarrow>
            (1 - (real_of_int (age p) + 1) / lifespan p) * opacity a < 0)"
proof -
  let ?L = "lifespan p" and ?n = "real_of_int (age p) + 1" and ?O = "opacity a"
  have L: "0 < ?L" and n: "0 < ?n" "?n < ?L + 1"
    using assms(1) by (simp_all add: alive_def)
  have keep: "age p1 = age p" "lifespan p1 = lifespan p"
    using follow_result [OF assms(3)] by auto
  have a2: "age (ArtParticle_update w h p1) = age p + 1"
      "lifespan (ArtParticle_update w h p1) = lifespan p"
    using keep by (simp_all add: ArtParticle_update_age)
  have disp: "ArtParticle_display a (ArtParticle_update w h p1) = Inr ((1 - ?n / ?L) * ?O)"
    using L a2 by (simp add: ArtParticle_display_def py_truediv_def Let_def)
  have q: "0 < ?n / ?L" using L n(1) by simp
  have "1 - ?n / ?L \<le> 1" using q by simp
  then have up: "(1 - ?n / ?L) * ?O \<le> ?O"
    using assms(2) mult_right_mono [of "1 - ?n / ?L" 1 ?O] by simp
  have "?n / ?L < (?L + 1) / ?L" using n(2) L by (simp add: divide_strict_right_mono)
  then have "?n / ?L < 1 + 1 / ?L" using L by (simp add: add_divide_distrib)
  then have "- (1 / ?L) \<le> 1 - ?n / ?L" by simp
  then have "- (1 / ?L) * ?O \<le> (1 - ?n / ?L) * ?O"
    using assms(2) by (rule mult_right_mono)
  then have low: "- (?O / ?L) \<le> (1 - ?n / ?L) * ?O" by simp
  have pos: "0 \<le> (1 - ?n / ?L) * ?O" if "?n \<le> ?L"
  proof -
    have "?n / ?L \<le> 1" using that L by simp
    then show ?thesis using assms(2) by simp
  qed
  have neg: "(1 - ?n / ?L) * ?O < 0" if "?L < ?n" "0 < ?O"
  proof -
    have "1 < ?n / ?L" using that(1) L by simp
    then have "1 - ?n / ?L < 0" by simp
    then show ?thesis using that(2) by (simp add: mult_neg_pos)
  qed
  from disp a2 up low pos neg show ?thesis by blast
qed

text \<open>The theorem at a new particle with a lifespan of 200 under the profile of Monet.\<close>

theorem render_alpha_range_witness:
  "alive \<lparr>self_x = 15, self_y = 5, prev_x = 15, prev_y = 5, vx = 0, vy = 0,
       max_speed = 9 / 4, col = (168, 199, 168), stroke_weight = 2, lifespan = 200, age = 0\<rparr> \<and>
   (0 :: real) \<le> opacity monet \<and>
   follow 20 2 1 [[0], [0]]
     \<lparr>self_x = 15, self_y = 5, prev_x = 15, prev_y = 5, vx = 0, vy = 0,
       max_speed = 9 / 4, col = (168, 199, 168), stroke_weight = 2, lifespan = 200, age = 0\<rparr>
     = Inr \<lparr>self_x = 15, self_y = 5, prev_x = 15, prev_y = 5, vx = 9 / 4, vy = 0,
       max_speed = 9 / 4, col = (168, 199, 168), stroke_weight = 2, lifespan = 200, age = 0\<rparr> \<and>
   ArtParticle_display monet (ArtParticle_update 30 10
     \<lparr>self_x = 15, self_y = 5, prev_x = 15, prev_y = 5, vx = 9 / 4, vy = 0,
       max_speed = 9 / 4, col = (168, 199, 168), stroke_weight = 2, lifespan = 200, age = 0\<rparr>)
     = Inr (398 / 5) \<and>
   (398 / 5 :: real) \<le> 80 \<and> (0 :: real) \<le> 398 / 5"
proof -
  let ?P0 = "\<lparr>self_x = 15, self_y = 5, prev_x = 15, prev_y = 5, vx = 0, vy = 0,
       max_speed = 9 / 4, col = (168, 199, 168), stroke_weight = 2, lifespan = 200, age = 0\<rparr>"
  have live: "alive ?P0"
    by (simp add: alive_def)
  have op: "0 \<le> opacity monet"
    by (simp add: monet_def)
  have fol: "follow 20 2 1 [[0], [0]] ?P0 =
      Inr \<lparr>self_x = 15, self_y = 5, prev_x = 15, prev_y = 5, vx = 9 / 4, vy = 0,
       max_speed = 9 / 4, col = (168, 199, 168), stroke_weight = 2, lifespan = 200, age = 0\<rparr>"
    by (simp add: follow_def py_truediv_def py_int_def constrain_def py_getitem_def)
  show ?thesis
    using live op fol render_alpha_range [OF live op fol, of 30 10]
    by (simp add: monet_def)
qed

text \<open>
  The claim as first stated, with \<open>0 \<le> alpha\<close> for every rendered particle, fails for a
  particle of age 100 whose lifespan is 100.5, the value of \<^verbatim>\<open>py5.random(100, 300)\<close> for
  the draw \<open>1/400\<close>: it is still in the pool, its next frame renders it at age 101 with a
  negative alpha, and only then is it replaced.
\<close>

theorem render_alpha_counterexample:
  "alive \<lparr>self_x = 600, self_y = 400, prev_x = 598, prev_y = 400, vx = 2, vy = 0,
       max_speed = 2, col = (142, 178, 197), stroke_weight = 2, lifespan = 201 / 2, age = 100\<rparr> \<and>
   random2 (1 / 400) 100 300 = 201 / 2 \<and>
   ArtParticle_display monet (ArtParticle_update 1200 800
     \<lparr>self_x = 600, self_y = 400, prev_x = 598, prev_y = 400, vx = 2, vy = 0,
       max_speed = 2, col = (142, 178, 197), stroke_weight = 2, lifespan = 201 / 2, age = 100\<rparr>)
     = Inr (- (80 / 201)) \<and>
   \<not> (0 \<le> - (80 / 201 :: real))"
  by (simp add: alive_def random2_def ArtParticle_display_def ArtParticle_update_def
      py_truediv_def monet_def)




text \<open>
  Claim C10. After \<^verbatim>\<open>setup()\<close> of lesson 07 with a positive \<^verbatim>\<open>scale\<close>, every
  position of the closed box \<open>[0, width] \<times> [0, height]\<close> has its unclamped indices
  \<^verbatim>\<open>int(x / scale)\<close>, \<^verbatim>\<open>int(y / scale)\<close> inside \<open>[0, cols - 1] \<times> [0, rows - 1]\<close>, so
  the clamping of \<^verbatim>\<open>follow\<close> leaves them as they are.
\<close>

theorem grid_covers_closed_canvas:
  assumes "flow_setup g w h scale n pal = Inr st" "0 < scale"
      "0 \<le> x" "x \<le> real_of_int w" "0 \<le> y" "y \<le> real_of_int h"
  shows "0 \<le> py_int (x / scale) \<and> py_int (x / scale) \<le> cols st - 1 \<and>
         0 \<le> py_int (y / scale) \<and> py_int (y / scale) \<le> rows st - 1 \<and>
         constrain (py_int (x / scale)) 0 (cols st - 1) = py_int (x / scale) \<and>
         constrain (py_int (y / scale)) 0 (rows st - 1) = py_int (y / scale)"
proof -
  have w: "0 \<le> w" and h: "0 \<le> h" using assms(3-6) by linarith+
  have c: "cols st = \<lfloor>real_of_int w / scale\<rfloor> + 1" and r: "rows st = \<lfloor>real_of_int h / scale\<rfloor> + 1"
    using flow_setup_fields [OF assms(1)] grid_dim_value [OF assms(2) w]
      grid_dim_value [OF assms(2) h] by simp_all
  have qx: "0 \<le> x / scale" "x / scale \<le> real_of_int w / scale"
    using assms(2-4) by (simp_all add: divide_right_mono)
  have qy: "0 \<le> y / scale" "y / scale \<le> real_of_int h / scale"
    using assms(2,5,6) by (simp_all add: divide_right_mono)
  have ix: "0 \<le> \<lfloor>x / scale\<rfloor>" "\<lfloor>x / scale\<rfloor> \<le> \<lfloor>real_of_int w / scale\<rfloor>"
    using qx by (simp_all add: floor_mono)
  have iy: "0 \<le> \<lfloor>y / scale\<rfloor>" "\<lfloor>y / scale\<rfloor> \<le> \<lfloor>real_of_int h / scale\<rfloor>"
    using qy by (simp_all add: floor_mono)
  show ?thesis
    using ix iy qx(1) qy(1) by (simp add: c r py_int_def constrain_def)
qed

text \<open>The theorem at the far corner of a canvas of 40 by 20 with cells of 20.\<close>

theorem grid_covers_closed_canvas_witness:
  "flow_setup (constant_draws (1/2)) 40 20 20 1 [(142, 178, 197)] =
     Inr \<lparr>width = 40, height = 20, cols = 3, rows = 2, field = new_field 3 2,
          particles = [\<lparr>self_x = 20, self_y = 10, prev_x = 20, prev_y = 10, vx = 0, vy = 0,
                        max_speed = 3, col = (142, 178, 197)\<rparr>],
          z_offset = 0, draws = 4\<rparr>
   \<and> py_int (40 / 20) = 2 \<and> constrain (py_int (40 / 20)) 0 (3 - 1) = 2
   \<and> py_int (20 / 20) = 1 \<and> constrain (py_int (20 / 20)) 0 (2 - 1) = 1"
proof -
  have run: "flow_setup (constant_draws (1/2)) 40 20 20 1 [(142, 178, 197)] =
     Inr \<lparr>width = 40, height = 20, cols = 3, rows = 2, field = new_field 3 2,
          particles = [\<lparr>self_x = 20, self_y = 10, prev_x = 20, prev_y = 10, vx = 0, vy = 0,
                        max_speed = 3, col = (142, 178, 197)\<rparr>],
          z_offset = 0, draws = 4\<rparr>"
    by (simp add: flow_setup_def grid_dim_def py_truediv_def py_int_def FlowParticle_init_def
        constant_draws_def random1_def random2_def py_getitem_def)
  show ?thesis
    using grid_covers_closed_canvas [OF run, of 40 20] run by (simp add: py_int_def)
qed

end
